theory Spec2Isabelle
  imports Complex_Main "HOL-Library.Log_Nat" "HOL-Library.Word"
begin

section \<open>JavaScript numbers\<close>

text \<open>
  Both source files compute with JavaScript \<open>Number\<close> values, that is IEEE-754 binary64.
  A number is NaN, an infinity, or a finite value, kept as the exact rational it denotes.
  Every arithmetic operation computes the exact result and rounds it with \<open>fl\<close>
  (round to nearest, ties to even, 53-bit significand, exponents \<open>-1022 .. 1023\<close>,
  gradual underflow, overflow to an infinity).  The sign of zero is not represented:
  no operation of the two source files tells \<open>-0\<close> from \<open>+0\<close> (there is no division by a
  computed value, and \<open>toFixed\<close> prints both zeros alike).
\<close>

datatype number = NaN | NegInfinity | Finite rat | PosInfinity

definition pow2 :: "int \<Rightarrow> rat" where
  "pow2 e = (if 0 \<le> e then 2 ^ nat e else 1 / 2 ^ nat (- e))"

text \<open>\<open>ilog2 x\<close> is \<open>\<lfloor>log\<^sub>2 x\<rfloor>\<close> for \<open>x > 0\<close>, computed on integers.\<close>

definition ilog2 :: "rat \<Rightarrow> int" where
  "ilog2 x = (if 1 \<le> x then bitlen \<lfloor>x\<rfloor> - 1 else - bitlen (\<lceil>1 / x\<rceil> - 1))"

definition round_half_even :: "rat \<Rightarrow> int" where
  "round_half_even r =
     (let f = \<lfloor>r\<rfloor>; d = r - of_int f
      in if d < 1 / 2 then f else if 1 / 2 < d then f + 1 else if even f then f else f + 1)"

text \<open>The unit in the last place of the binade of \<open>x\<close> is \<open>pow2 (quantum x)\<close>.\<close>

definition quantum :: "rat \<Rightarrow> int" where
  "quantum x = max (ilog2 \<bar>x\<bar>) (- 1022) - 52"

text \<open>\<open>x\<close> rounded to a multiple of its unit in the last place, ties to even.\<close>

definition rounded :: "rat \<Rightarrow> rat" where
  "rounded x = of_int (round_half_even (x / pow2 (quantum x))) * pow2 (quantum x)"

definition fl :: "rat \<Rightarrow> number" where
  "fl x =
     (if x = 0 then Finite 0
      else if pow2 1024 \<le> rounded x then PosInfinity
      else if rounded x \<le> - pow2 1024 then NegInfinity
      else Finite (rounded x))"

text \<open>A number is a binary64 value when rounding leaves it alone.\<close>

fun is_double :: "number \<Rightarrow> bool" where
  "is_double (Finite x) = (fl x = Finite x)"
| "is_double _ = True"

text \<open>The relational operator \<open><\<close>: false as soon as one side is NaN.\<close>

fun js_lt :: "number \<Rightarrow> number \<Rightarrow> bool" where
  "js_lt NaN _ = False"
| "js_lt _ NaN = False"
| "js_lt _ NegInfinity = False"
| "js_lt NegInfinity _ = True"
| "js_lt PosInfinity _ = False"
| "js_lt (Finite x) (Finite y) = (x < y)"
| "js_lt (Finite x) PosInfinity = True"

text \<open>\<open>\<le>\<close> and \<open>===\<close> on numbers, used to state properties only.\<close>

fun js_eq :: "number \<Rightarrow> number \<Rightarrow> bool" where
  "js_eq NaN _ = False"
| "js_eq _ NaN = False"
| "js_eq a b = (a = b)"

definition js_le :: "number \<Rightarrow> number \<Rightarrow> bool" where
  "js_le a b = (js_lt a b \<or> js_eq a b)"

fun js_mul :: "number \<Rightarrow> number \<Rightarrow> number" where
  "js_mul NaN _ = NaN"
| "js_mul _ NaN = NaN"
| "js_mul (Finite x) (Finite y) = fl (x * y)"
| "js_mul (Finite x) PosInfinity = (if x = 0 then NaN else if 0 < x then PosInfinity else NegInfinity)"
| "js_mul (Finite x) NegInfinity = (if x = 0 then NaN else if 0 < x then NegInfinity else PosInfinity)"
| "js_mul PosInfinity (Finite y) = (if y = 0 then NaN else if 0 < y then PosInfinity else NegInfinity)"
| "js_mul NegInfinity (Finite y) = (if y = 0 then NaN else if 0 < y then NegInfinity else PosInfinity)"
| "js_mul PosInfinity PosInfinity = PosInfinity"
| "js_mul NegInfinity NegInfinity = PosInfinity"
| "js_mul PosInfinity NegInfinity = NegInfinity"
| "js_mul NegInfinity PosInfinity = NegInfinity"

fun js_sub :: "number \<Rightarrow> number \<Rightarrow> number" where
  "js_sub NaN _ = NaN"
| "js_sub _ NaN = NaN"
| "js_sub (Finite x) (Finite y) = fl (x - y)"
| "js_sub (Finite x) PosInfinity = NegInfinity"
| "js_sub (Finite x) NegInfinity = PosInfinity"
| "js_sub PosInfinity (Finite y) = PosInfinity"
| "js_sub NegInfinity (Finite y) = NegInfinity"
| "js_sub PosInfinity PosInfinity = NaN"
| "js_sub NegInfinity NegInfinity = NaN"
| "js_sub PosInfinity NegInfinity = PosInfinity"
| "js_sub NegInfinity PosInfinity = NegInfinity"

fun js_div :: "number \<Rightarrow> number \<Rightarrow> number" where
  "js_div NaN _ = NaN"
| "js_div _ NaN = NaN"
| "js_div (Finite x) (Finite y) =
     (if y = 0 then (if x = 0 then NaN else if 0 < x then PosInfinity else NegInfinity)
      else fl (x / y))"
| "js_div (Finite x) PosInfinity = Finite 0"
| "js_div (Finite x) NegInfinity = Finite 0"
| "js_div PosInfinity (Finite y) = (if 0 \<le> y then PosInfinity else NegInfinity)"
| "js_div NegInfinity (Finite y) = (if 0 \<le> y then NegInfinity else PosInfinity)"
| "js_div PosInfinity PosInfinity = NaN"
| "js_div NegInfinity NegInfinity = NaN"
| "js_div PosInfinity NegInfinity = NaN"
| "js_div NegInfinity PosInfinity = NaN"

section \<open>Step 3 of \<open>onCronTrigger\<close>: the status\<close>

text \<open>
  \<open>src/my-workflow/main.ts\<close>, lines 174 to 181: an \<open>if\<close> / \<open>else if\<close> / \<open>else\<close> chain
  assigning \<open>status\<close>.
\<close>

definition status_main :: "number \<Rightarrow> number \<Rightarrow> string" where
  "status_main stalenessMinutes thresholdMinutes =
     (if js_lt stalenessMinutes thresholdMinutes then ''OK''
      else if js_lt stalenessMinutes (js_mul thresholdMinutes (Finite 3)) then ''WARN''
      else ''FAIL'')"

text \<open>\<open>src/unnamed/part_000\<close>, lines 124 and 125: the same decision as a nested conditional.\<close>

definition status_part :: "number \<Rightarrow> number \<Rightarrow> string" where
  "status_part stalenessMinutes threshold =
     (if js_lt stalenessMinutes threshold then ''OK''
      else (if js_lt stalenessMinutes (js_mul threshold (Finite 3)) then ''WARN'' else ''FAIL''))"

section \<open>Number conversions and formatting\<close>

text \<open>\<open>Number(b)\<close> for a BigInt \<open>b\<close>: the nearest binary64 value.\<close>

definition Number_of_bigint :: "int \<Rightarrow> number" where
  "Number_of_bigint b = fl (of_int b)"

text \<open>
  \<open>Math.pow(10, d)\<close> (main.ts) and \<open>10 ** d\<close> (part_000) are the same operation of the
  language, \<open>Number::exponentiate\<close>.  The language fixes its value for the exponent
  zero, which is \<open>1\<close>; for every other exponent the value is an approximation that the
  engine chooses, and engines do not always return the nearest binary64 value.  The
  engine's choice is the parameter \<open>engine\<close>.
\<close>

definition Math_pow10 :: "(nat \<Rightarrow> number) \<Rightarrow> nat \<Rightarrow> number" where
  "Math_pow10 engine d = (if d = 0 then Finite 1 else engine d)"

fun digits :: "nat \<Rightarrow> string" where
  "digits n =
     (if n < 10 then [''0123456789'' ! n]
      else digits (n div 10) @ [''0123456789'' ! (n mod 10)])"

declare digits.simps [simp del]

text \<open>A BigInt in a template literal: its decimal digits, with a sign when negative.\<close>

definition bigint_toString :: "int \<Rightarrow> string" where
  "bigint_toString i = (if i < 0 then ''-'' @ digits (nat (- i)) else digits (nat i))"

text \<open>
  \<open>Number.prototype.toFixed(f)\<close>.  Non-finite values print their name.  A magnitude of
  at least \<open>10 ^ 21\<close> is printed by \<open>Number::toString\<close> in exponent notation; that
  printer is the parameter \<open>big\<close>.  Otherwise \<open>n\<close> is the integer nearest to
  \<open>x * 10 ^ f\<close> (the larger one on a tie), printed with \<open>f\<close> digits after the point.
\<close>

definition toFixed :: "(rat \<Rightarrow> string) \<Rightarrow> nat \<Rightarrow> number \<Rightarrow> string" where
  "toFixed big f x =
     (case x of
        NaN \<Rightarrow> ''NaN''
      | PosInfinity \<Rightarrow> ''Infinity''
      | NegInfinity \<Rightarrow> ''-Infinity''
      | Finite r \<Rightarrow>
          (let s = (if r < 0 then ''-'' else []);
               a = \<bar>r\<bar>
           in if 10 ^ 21 \<le> a then s @ big a
              else let n = nat \<lfloor>a * 10 ^ f + 1 / 2\<rfloor>;
                       m = digits n;
                       m' = (if f = 0 then m
                             else let z = replicate (f + 1 - length m) (CHR ''0'') @ m;
                                      k = length z
                                  in take (k - f) z @ ''.'' @ drop (k - f) z)
                   in s @ m'))"

section \<open>Dates\<close>

text \<open>
  A \<open>Date\<close> is its time value: a whole number of milliseconds of magnitude at most
  \<open>8.64e15\<close>, or NaN (an invalid date).  \<open>new Date(v)\<close> applies \<open>TimeClip\<close>.
\<close>

definition TimeClip :: "number \<Rightarrow> number" where
  "TimeClip t =
     (case t of
        Finite v \<Rightarrow>
          if 8640000000000000 < \<bar>v\<bar> then NaN
          else Finite (of_int (if 0 \<le> v then \<lfloor>v\<rfloor> else \<lceil>v\<rceil>))
      | _ \<Rightarrow> NaN)"

definition Date_new :: "number \<Rightarrow> number" where
  "Date_new v = TimeClip v"

definition getTime :: "number \<Rightarrow> number" where
  "getTime d = d"

section \<open>Configuration and its validation\<close>

datatype jsvalue = JUndefined | JNull | JBoolean bool | JNumber number | JString string

text \<open>\<open>runtime.config\<close> as it arrives: an object, read by property name.\<close>

type_synonym raw_config = "string \<Rightarrow> jsvalue"

record Config =
  schedule :: string
  feedAddress :: string
  feedName :: string
  stalenessThresholdMinutes :: number
  chainSelectorName :: string
  isTestnet :: bool

datatype issue_code = invalid_type | invalid_string | too_small

text \<open>A Zod issue: the path of the field, the code, and the custom message if one was given.\<close>

datatype issue = Issue (path: string) (code: issue_code) (custom: "string option")

fun is_hex_digit :: "char \<Rightarrow> bool" where
  "is_hex_digit c = (c \<in> set ''0123456789abcdefABCDEF'')"

text \<open>The regular expression \<open>/^0x[a-fA-F0-9]{40}$/\<close>.\<close>

fun address_regex :: "string \<Rightarrow> bool" where
  "address_regex (a # b # rest) =
     (a = CHR ''0'' \<and> b = CHR ''x'' \<and> length rest = 40 \<and> list_all is_hex_digit rest)"
| "address_regex _ = False"

text \<open>\<open>z.string()\<close>: any string passes, the empty one too.\<close>

fun z_string :: "string \<Rightarrow> jsvalue \<Rightarrow> issue list + string" where
  "z_string key (JString s) = Inr s"
| "z_string key _ = Inl [Issue key invalid_type None]"

text \<open>\<open>z.string().regex(re, msg)\<close>.\<close>

fun z_string_regex ::
  "(string \<Rightarrow> bool) \<Rightarrow> string option \<Rightarrow> string \<Rightarrow> jsvalue \<Rightarrow> issue list + string" where
  "z_string_regex re msg key (JString s) =
     (if re s then Inr s else Inl [Issue key invalid_string msg])"
| "z_string_regex re msg key _ = Inl [Issue key invalid_type None]"

text \<open>
  \<open>z.number().positive(msg)\<close>: NaN is not a number for Zod; a number passes when it is
  greater than zero, the positive infinity included (as in Zod 3, which checks only
  \<open>value <= 0\<close>).
\<close>

fun z_number_positive :: "string option \<Rightarrow> string \<Rightarrow> jsvalue \<Rightarrow> issue list + number" where
  "z_number_positive msg key (JNumber NaN) = Inl [Issue key invalid_type None]"
| "z_number_positive msg key (JNumber n) =
     (if js_lt (Finite 0) n then Inr n else Inl [Issue key too_small msg])"
| "z_number_positive msg key _ = Inl [Issue key invalid_type None]"

fun z_boolean :: "string \<Rightarrow> jsvalue \<Rightarrow> issue list + bool" where
  "z_boolean key (JBoolean b) = Inr b"
| "z_boolean key _ = Inl [Issue key invalid_type None]"

fun issues_of :: "issue list + 'a \<Rightarrow> issue list" where
  "issues_of (Inl is) = is"
| "issues_of (Inr _) = []"

datatype error =
    ZodError "issue list"
  | NetworkNotFound string
  | CallFailed string
  | DecodeFailed string
  | RangeError

text \<open>\<open>z.object({...}).parse\<close>: every field is checked, all issues are reported together.\<close>

definition z_object ::
  "issue list + string \<Rightarrow> issue list + string \<Rightarrow> issue list + string \<Rightarrow>
   issue list + number \<Rightarrow> issue list + string \<Rightarrow> issue list + bool \<Rightarrow> error + Config" where
  "z_object p1 p2 p3 p4 p5 p6 =
     (case (p1, p2, p3, p4, p5, p6) of
        (Inr s, Inr a, Inr n, Inr t, Inr c, Inr b) \<Rightarrow>
          Inr \<lparr>schedule = s, feedAddress = a, feedName = n, stalenessThresholdMinutes = t,
               chainSelectorName = c, isTestnet = b\<rparr>
      | _ \<Rightarrow>
          Inl (ZodError (issues_of p1 @ issues_of p2 @ issues_of p3 @ issues_of p4 @
                         issues_of p5 @ issues_of p6)))"

text \<open>
  \<open>configSchema\<close> of \<open>src/my-workflow/main.ts\<close>, lines 20 to 27.  The \<open>ZodError\<close> that
  \<open>parse\<close> throws is the configuration error of the specification.
\<close>

definition configSchema_main :: "raw_config \<Rightarrow> error + Config" where
  "configSchema_main raw =
     z_object
       (z_string ''schedule'' (raw ''schedule''))
       (z_string_regex address_regex (Some ''feedAddress must be a valid Ethereum address'')
          ''feedAddress'' (raw ''feedAddress''))
       (z_string ''feedName'' (raw ''feedName''))
       (z_number_positive (Some ''stalenessThresholdMinutes must be a positive number'')
          ''stalenessThresholdMinutes'' (raw ''stalenessThresholdMinutes''))
       (z_string ''chainSelectorName'' (raw ''chainSelectorName''))
       (z_boolean ''isTestnet'' (raw ''isTestnet''))"

text \<open>\<open>configSchema\<close> of \<open>src/unnamed/part_000\<close>, lines 6 to 13: no custom messages.\<close>

definition configSchema_part :: "raw_config \<Rightarrow> error + Config" where
  "configSchema_part raw =
     z_object
       (z_string ''schedule'' (raw ''schedule''))
       (z_string_regex address_regex None ''feedAddress'' (raw ''feedAddress''))
       (z_string ''feedName'' (raw ''feedName''))
       (z_number_positive None ''stalenessThresholdMinutes'' (raw ''stalenessThresholdMinutes''))
       (z_string ''chainSelectorName'' (raw ''chainSelectorName''))
       (z_boolean ''isTestnet'' (raw ''isTestnet''))"

section \<open>The runtime: log, network, contract calls, decoding, clock\<close>

datatype block_ref = LAST_FINALIZED_BLOCK_NUMBER | LATEST_BLOCK_NUMBER | BlockNumber nat

text \<open>The argument of \<open>evmClient.callContract\<close>, with the chain selector of the client.\<close>

record call_request =
  chainSelector :: nat
  call_from :: string
  call_to :: string
  call_data :: string
  blockNumber :: block_ref

text \<open>What an evaluation does to the outside, in order.\<close>

datatype event = Log string | CallContract call_request

record round_data =
  roundId :: "80 word"
  answer :: "256 word"
  startedAt :: "256 word"
  updatedAt :: "256 word"
  answeredInRound :: "80 word"

text \<open>
  Everything \<open>onCronTrigger\<close> takes from the SDK, from viem, from Zod and from the
  JavaScript engine is a field of the environment.  \<open>callContract\<close> gives what
  \<open>.result()\<close> returns for a request, the decoders what \<open>decodeFunctionResult\<close> returns
  for the bytes; \<open>Inl\<close> is the message of the exception thrown.  \<open>clock\<close> is the
  current time value in milliseconds, \<open>exponentiate10 d\<close> the engine's value of ten to
  the power \<open>d\<close>.
\<close>

record env =
  getNetwork :: "string \<Rightarrow> string \<Rightarrow> bool \<Rightarrow> nat option"
  encodeFunctionData :: "string \<Rightarrow> string"
  callContract :: "call_request \<Rightarrow> string + 8 word list"
  decodeDescription :: "8 word list \<Rightarrow> string + string"
  decodeDecimals :: "8 word list \<Rightarrow> string + 8 word"
  decodeLatestRoundData :: "8 word list \<Rightarrow> string + round_data"
  clock :: int
  exponentiate10 :: "nat \<Rightarrow> number"
  isoString :: "rat \<Rightarrow> string"
  numberToString :: "rat \<Rightarrow> string"
  zodMessage :: "issue list \<Rightarrow> string"
  rangeErrorMessage :: string

type_synonym 'a run = "event list \<times> (error + 'a)"

definition ok :: "'a \<Rightarrow> 'a run" where
  "ok x = ([], Inr x)"

definition throw :: "error \<Rightarrow> 'a run" where
  "throw e = ([], Inl e)"

text \<open>Sequencing: an exception in the first part skips the rest.\<close>

definition bind :: "'a run \<Rightarrow> ('a \<Rightarrow> 'b run) \<Rightarrow> 'b run" where
  "bind m f =
     (case m of
        (es, Inl e) \<Rightarrow> (es, Inl e)
      | (es, Inr x) \<Rightarrow> (case f x of (es', r) \<Rightarrow> (es @ es', r)))"

definition seq :: "unit run \<Rightarrow> 'b run \<Rightarrow> 'b run" where
  "seq m k = bind m (\<lambda>_. k)"

definition runtime_log :: "string \<Rightarrow> unit run" where
  "runtime_log s = ([Log s], Inr ())"

definition zeroAddress :: string where
  "zeroAddress = ''0x0000000000000000000000000000000000000000''"

text \<open>The rule of 52 box-drawing characters U+2501 that main.ts logs, in UTF-8.\<close>

definition rule_line :: string where
  "rule_line = concat (replicate 52 [CHR 0xE2, CHR 0x94, CHR 0x81])"

text \<open>
  \<open>evmClient.callContract(runtime, {call, blockNumber})\<close>: the request goes out, the
  promise stands for it.
\<close>

definition callContract_start :: "call_request \<Rightarrow> call_request run" where
  "callContract_start req = ([CallContract req], Inr req)"

text \<open>\<open>promise.result().data\<close>.\<close>

definition result :: "env \<Rightarrow> call_request \<Rightarrow> (8 word list) run" where
  "result env promise =
     (case callContract env promise of
        Inl m \<Rightarrow> throw (CallFailed m)
      | Inr d \<Rightarrow> ok d)"

text \<open>\<open>decodeFunctionResult({abi, functionName, data: bytesToHex(data)})\<close>.\<close>

definition decodeFunctionResult :: "(8 word list \<Rightarrow> string + 'a) \<Rightarrow> 8 word list \<Rightarrow> 'a run" where
  "decodeFunctionResult dec d =
     (case dec d of
        Inl m \<Rightarrow> throw (DecodeFailed m)
      | Inr v \<Rightarrow> ok v)"

text \<open>\<open>date.toISOString()\<close>: a RangeError on an invalid date.\<close>

definition toISOString :: "env \<Rightarrow> number \<Rightarrow> string run" where
  "toISOString env d =
     (case d of
        Finite v \<Rightarrow> ok (isoString env v)
      | _ \<Rightarrow> throw RangeError)"

text \<open>\<open>error.message\<close>.\<close>

fun error_message :: "env \<Rightarrow> error \<Rightarrow> string" where
  "error_message env (ZodError is) = zodMessage env is"
| "error_message env (NetworkNotFound n) = ''Network not found: '' @ n"
| "error_message env (CallFailed m) = m"
| "error_message env (DecodeFailed m) = m"
| "error_message env RangeError = rangeErrorMessage env"

text \<open>The values of step 3 that the report prints.\<close>

record health =
  price :: number
  updatedAtDate :: number
  stalenessMinutes :: number
  status :: string

section \<open>\<open>onCronTrigger\<close> of \<open>src/my-workflow/main.ts\<close>\<close>

text \<open>Lines 167 to 181: price, staleness and status.\<close>

definition health_main :: "env \<Rightarrow> Config \<Rightarrow> 8 word \<Rightarrow> round_data \<Rightarrow> health" where
  "health_main env config decimals rd =
     (let price = js_div (Number_of_bigint (sint (answer rd)))
                    (Math_pow10 (exponentiate10 env) (unat decimals));
          updatedAtDate = Date_new (js_mul (Number_of_bigint (uint (updatedAt rd))) (Finite 1000));
          now = Finite (of_int (clock env));
          stalenessMs = js_sub (getTime now) (getTime updatedAtDate);
          stalenessMinutes = js_div stalenessMs (Finite 60000);
          thresholdMinutes = stalenessThresholdMinutes config
      in \<lparr>price = price, updatedAtDate = updatedAtDate, stalenessMinutes = stalenessMinutes,
          status = status_main stalenessMinutes thresholdMinutes\<rparr>)"

text \<open>Line 192: the summary.\<close>

definition summary_main :: "env \<Rightarrow> Config \<Rightarrow> health \<Rightarrow> string" where
  "summary_main env config h =
     feedName config @ '': '' @ status h @ '' ('' @ toFixed (numberToString env) 2 (price h) @
     '', '' @ toFixed (numberToString env) 1 (stalenessMinutes h) @ ''m stale)''"

text \<open>Lines 183 to 194: the report, then the summary, logged and returned.\<close>

definition report_main :: "env \<Rightarrow> Config \<Rightarrow> string \<Rightarrow> round_data \<Rightarrow> health \<Rightarrow> string run" where
  "report_main env config description rd h =
     seq (runtime_log rule_line)
    (seq (runtime_log (''  Feed:      '' @ description))
    (seq (runtime_log (''  Price:     $'' @ toFixed (numberToString env) 2 (price h)))
    (seq (runtime_log (''  Round ID:  '' @ bigint_toString (uint (roundId rd))))
    (bind (toISOString env (updatedAtDate h)) (\<lambda>iso.
     seq (runtime_log (''  Updated:   '' @ iso))
    (seq (runtime_log (''  Staleness: '' @ toFixed (numberToString env) 1 (stalenessMinutes h) @
                       '' minutes''))
    (seq (runtime_log (''  Status:    '' @ status h))
    (seq (runtime_log rule_line)
    (seq (runtime_log (summary_main env config h))
         (ok (summary_main env config h)))))))))))"

text \<open>Lines 137 to 164: the three results first, then the three decodings.\<close>

definition read_main :: "env \<Rightarrow> call_request \<Rightarrow> call_request \<Rightarrow> call_request \<Rightarrow>
    (string \<times> 8 word \<times> round_data) run" where
  "read_main env descPromise decimalsPromise roundPromise =
     seq (runtime_log ''[Step 2] Executing parallel EVM calls...'')
    (bind (result env descPromise) (\<lambda>descResult.
     bind (result env decimalsPromise) (\<lambda>decimalsResult.
     bind (result env roundPromise) (\<lambda>roundResult.
     bind (decodeFunctionResult (decodeDescription env) descResult) (\<lambda>description.
     seq (runtime_log (''  Feed: '' @ description))
    (bind (decodeFunctionResult (decodeDecimals env) decimalsResult) (\<lambda>decimals.
     seq (runtime_log (''  Decimals: '' @ digits (unat decimals)))
    (bind (decodeFunctionResult (decodeLatestRoundData env) roundResult) (\<lambda>rd.
     ok (description, decimals, rd))))))))))"

text \<open>Lines 88 to 135: the three calls are started, none is awaited.\<close>

definition dispatch_main :: "env \<Rightarrow> Config \<Rightarrow> nat \<Rightarrow>
    (call_request \<times> call_request \<times> call_request) run" where
  "dispatch_main env config selector =
     (let feedAddr = feedAddress config
      in seq (runtime_log ''[Step 1] Preparing EVM calls...'')
        (let descCallData = encodeFunctionData env ''description'';
             decimalsCallData = encodeFunctionData env ''decimals'';
             roundCallData = encodeFunctionData env ''latestRoundData''
         in bind (callContract_start
                    \<lparr>chainSelector = selector, call_from = zeroAddress, call_to = feedAddr,
                     call_data = descCallData, blockNumber = LAST_FINALIZED_BLOCK_NUMBER\<rparr>)
              (\<lambda>descPromise.
            bind (callContract_start
                    \<lparr>chainSelector = selector, call_from = zeroAddress, call_to = feedAddr,
                     call_data = decimalsCallData, blockNumber = LAST_FINALIZED_BLOCK_NUMBER\<rparr>)
              (\<lambda>decimalsPromise.
            bind (callContract_start
                    \<lparr>chainSelector = selector, call_from = zeroAddress, call_to = feedAddr,
                     call_data = roundCallData, blockNumber = LAST_FINALIZED_BLOCK_NUMBER\<rparr>)
              (\<lambda>roundPromise.
            ok (descPromise, decimalsPromise, roundPromise))))))"

text \<open>Lines 73 to 86: the heading and the network.\<close>

definition network_main :: "env \<Rightarrow> Config \<Rightarrow> nat run" where
  "network_main env config =
     seq (runtime_log rule_line)
    (seq (runtime_log (''Feed Health Monitor: '' @ feedName config))
    (seq (runtime_log rule_line)
    (case getNetwork env ''evm'' (chainSelectorName config) (isTestnet config) of
       None \<Rightarrow> throw (NetworkNotFound (chainSelectorName config))
     | Some selector \<Rightarrow> ok selector)))"

text \<open>
  The body of the \<open>try\<close> block, lines 68 to 194, with the values of step 3.  main.ts
  drops what \<open>parse\<close> returns and goes on reading \<open>runtime.config\<close>; on a
  configuration that has passed, the six fields it reads are the ones \<open>parse\<close> returns.
\<close>

definition try_main :: "env \<Rightarrow> raw_config \<Rightarrow> (health \<times> string) run" where
  "try_main env raw =
     bind ([], configSchema_main raw) (\<lambda>config.
     bind (network_main env config) (\<lambda>selector.
     bind (dispatch_main env config selector) (\<lambda>(descPromise, decimalsPromise, roundPromise).
     bind (read_main env descPromise decimalsPromise roundPromise) (\<lambda>(description, decimals, rd).
     let h = health_main env config decimals rd
     in bind (report_main env config description rd h) (\<lambda>summary.
        ok (h, summary))))))"

text \<open>Lines 195 to 198: the \<open>catch\<close> clause logs the message and throws the error again.\<close>

definition catch_main :: "env \<Rightarrow> 'a run \<Rightarrow> 'a run" where
  "catch_main env m =
     (case m of
        (es, Inl e) \<Rightarrow> (es @ [Log (''ERROR: '' @ error_message env e)], Inl e)
      | (es, Inr x) \<Rightarrow> (es, Inr x))"

definition assess_main :: "env \<Rightarrow> raw_config \<Rightarrow> (health \<times> string) run" where
  "assess_main env raw = catch_main env (try_main env raw)"

text \<open>Lines 66 to 199: what the handler logs and sends, and what it returns or throws.\<close>

definition onCronTrigger_main :: "env \<Rightarrow> raw_config \<Rightarrow> string run" where
  "onCronTrigger_main env raw = bind (assess_main env raw) (\<lambda>(h, summary). ok summary)"

section \<open>\<open>onCronTrigger\<close> of \<open>src/unnamed/part_000\<close>\<close>

text \<open>Lines 119 to 125.\<close>

definition health_part :: "env \<Rightarrow> Config \<Rightarrow> 8 word \<Rightarrow> round_data \<Rightarrow> health" where
  "health_part env config decimals rd =
     (let price = js_div (Number_of_bigint (sint (answer rd)))
                    (Math_pow10 (exponentiate10 env) (unat decimals));
          updatedAtDate = Date_new (js_mul (Number_of_bigint (uint (updatedAt rd))) (Finite 1000));
          stalenessMinutes =
            js_div (js_sub (Finite (of_int (clock env))) (getTime updatedAtDate)) (Finite 60000);
          threshold = stalenessThresholdMinutes config
      in \<lparr>price = price, updatedAtDate = updatedAtDate, stalenessMinutes = stalenessMinutes,
          status = status_part stalenessMinutes threshold\<rparr>)"

text \<open>Line 134: the summary.\<close>

definition summary_part :: "env \<Rightarrow> Config \<Rightarrow> health \<Rightarrow> string" where
  "summary_part env config h =
     feedName config @ '': '' @ status h @ '' ($'' @ toFixed (numberToString env) 2 (price h) @
     '', '' @ toFixed (numberToString env) 1 (stalenessMinutes h) @ ''m)''"

text \<open>Lines 127 to 134.\<close>

definition report_part :: "env \<Rightarrow> Config \<Rightarrow> string \<Rightarrow> round_data \<Rightarrow> health \<Rightarrow> string run" where
  "report_part env config description rd h =
     seq (runtime_log (''Feed:      '' @ description))
    (seq (runtime_log (''Price:     $'' @ toFixed (numberToString env) 2 (price h)))
    (seq (runtime_log (''Round ID:  '' @ bigint_toString (uint (roundId rd))))
    (bind (toISOString env (updatedAtDate h)) (\<lambda>iso.
     seq (runtime_log (''Updated:   '' @ iso))
    (seq (runtime_log (''Staleness: '' @ toFixed (numberToString env) 1 (stalenessMinutes h) @
                       '' minutes''))
    (seq (runtime_log (''Status:    '' @ status h))
         (ok (summary_part env config h))))))))"

text \<open>Lines 101 to 117: each result is awaited and decoded in turn.\<close>

definition read_part :: "env \<Rightarrow> call_request \<Rightarrow> call_request \<Rightarrow> call_request \<Rightarrow>
    (string \<times> 8 word \<times> round_data) run" where
  "read_part env descPromise decimalsPromise roundPromise =
     bind (result env descPromise) (\<lambda>descResult.
     bind (decodeFunctionResult (decodeDescription env) descResult) (\<lambda>description.
     bind (result env decimalsPromise) (\<lambda>decimalsResult.
     bind (decodeFunctionResult (decodeDecimals env) decimalsResult) (\<lambda>decimals.
     bind (result env roundPromise) (\<lambda>roundResult.
     bind (decodeFunctionResult (decodeLatestRoundData env) roundResult) (\<lambda>rd.
     ok (description, decimals, rd)))))))"

text \<open>Lines 68 to 99.\<close>

definition dispatch_part :: "env \<Rightarrow> Config \<Rightarrow> nat \<Rightarrow>
    (call_request \<times> call_request \<times> call_request) run" where
  "dispatch_part env config selector =
     (let feedAddr = feedAddress config;
          descData = encodeFunctionData env ''description'';
          decimalsData = encodeFunctionData env ''decimals'';
          roundData = encodeFunctionData env ''latestRoundData''
      in bind (callContract_start
                 \<lparr>chainSelector = selector, call_from = zeroAddress, call_to = feedAddr,
                  call_data = descData, blockNumber = LAST_FINALIZED_BLOCK_NUMBER\<rparr>)
           (\<lambda>descPromise.
         bind (callContract_start
                 \<lparr>chainSelector = selector, call_from = zeroAddress, call_to = feedAddr,
                  call_data = decimalsData, blockNumber = LAST_FINALIZED_BLOCK_NUMBER\<rparr>)
           (\<lambda>decimalsPromise.
         bind (callContract_start
                 \<lparr>chainSelector = selector, call_from = zeroAddress, call_to = feedAddr,
                  call_data = roundData, blockNumber = LAST_FINALIZED_BLOCK_NUMBER\<rparr>)
           (\<lambda>roundPromise.
         ok (descPromise, decimalsPromise, roundPromise)))))"

text \<open>Lines 56 to 66.\<close>

definition network_part :: "env \<Rightarrow> Config \<Rightarrow> nat run" where
  "network_part env config =
     seq (runtime_log (''Feed Health Monitor: '' @ feedName config))
    (case getNetwork env ''evm'' (chainSelectorName config) (isTestnet config) of
       None \<Rightarrow> throw (NetworkNotFound (chainSelectorName config))
     | Some selector \<Rightarrow> ok selector)"

text \<open>Lines 53 to 135, with the values of step 3.\<close>

definition assess_part :: "env \<Rightarrow> raw_config \<Rightarrow> (health \<times> string) run" where
  "assess_part env raw =
     bind ([], configSchema_part raw) (\<lambda>config.
     bind (network_part env config) (\<lambda>selector.
     bind (dispatch_part env config selector) (\<lambda>(descPromise, decimalsPromise, roundPromise).
     bind (read_part env descPromise decimalsPromise roundPromise) (\<lambda>(description, decimals, rd).
     let h = health_part env config decimals rd
     in bind (report_part env config description rd h) (\<lambda>summary.
        ok (h, summary))))))"

definition onCronTrigger_part :: "env \<Rightarrow> raw_config \<Rightarrow> string run" where
  "onCronTrigger_part env raw = bind (assess_part env raw) (\<lambda>(h, summary). ok summary)"

section \<open>Notions for stating properties\<close>

text \<open>The requests and the log lines of a trace, in order.\<close>

fun calls :: "event list \<Rightarrow> call_request list" where
  "calls [] = []"
| "calls (Log s # es) = calls es"
| "calls (CallContract r # es) = r # calls es"

fun logs :: "event list \<Rightarrow> string list" where
  "logs [] = []"
| "logs (Log s # es) = s # logs es"
| "logs (CallContract r # es) = logs es"

text \<open>
  The request for one function of the feed: from the zero address, to the configured
  feed address, at the last finalized block.
\<close>

definition feed_request :: "env \<Rightarrow> Config \<Rightarrow> nat \<Rightarrow> string \<Rightarrow> call_request" where
  "feed_request env config selector functionName =
     \<lparr>chainSelector = selector, call_from = zeroAddress, call_to = feedAddress config,
      call_data = encodeFunctionData env functionName,
      blockNumber = LAST_FINALIZED_BLOCK_NUMBER\<rparr>"

text \<open>The quotient of the answer by the power of ten, as a rational number.\<close>

definition exact_price :: "8 word \<Rightarrow> round_data \<Rightarrow> rat" where
  "exact_price decimals rd = of_int (sint (answer rd)) / 10 ^ unat decimals"

section \<open>A concrete evaluation\<close>

text \<open>
  The feed of the README on Base, eight decimals, the answer \<open>2000.00000000\<close>, updated
  five minutes before the clock, with a threshold of ten minutes, on an engine whose
  powers of ten are the nearest binary64 values.
\<close>

definition example_round :: round_data where
  "example_round =
     \<lparr>roundId = 7, answer = 200000000000, startedAt = 1699999990,
      updatedAt = 1700000000, answeredInRound = 7\<rparr>"

definition example_env :: env where
  "example_env =
     \<lparr>getNetwork = (\<lambda>family name testnet.
         if family = ''evm'' \<and> name = ''ethereum-mainnet-base-1'' \<and> \<not> testnet
         then Some 8453 else None),
      encodeFunctionData = (\<lambda>functionName. functionName),
      callContract = (\<lambda>req. Inr []),
      decodeDescription = (\<lambda>d. Inr ''ETH / USD''),
      decodeDecimals = (\<lambda>d. Inr 8),
      decodeLatestRoundData = (\<lambda>d. Inr example_round),
      clock = 1700000300000,
      exponentiate10 = (\<lambda>d. fl (10 ^ d)),
      isoString = (\<lambda>v. ''2023-11-14T22:13:20.000Z''),
      numberToString = (\<lambda>v. ''1e+21''),
      zodMessage = (\<lambda>is. ''invalid configuration''),
      rangeErrorMessage = ''Invalid time value''\<rparr>"

definition example_config :: raw_config where
  "example_config =
     (\<lambda>key. JUndefined)
       (''schedule'' := JString ''0 */10 * * * *'',
        ''feedAddress'' := JString ''0x71041dddad3595F9CEd3DcCFBe3D1F4b0a16Bb70'',
        ''feedName'' := JString ''ETH/USD'',
        ''stalenessThresholdMinutes'' := JNumber (Finite 10),
        ''chainSelectorName'' := JString ''ethereum-mainnet-base-1'',
        ''isTestnet'' := JBoolean False)"

text \<open>The configuration that validation returns for it.\<close>

definition example_parsed :: Config where
  "example_parsed =
     \<lparr>schedule = ''0 */10 * * * *'',
      feedAddress = ''0x71041dddad3595F9CEd3DcCFBe3D1F4b0a16Bb70'',
      feedName = ''ETH/USD'',
      stalenessThresholdMinutes = Finite 10,
      chainSelectorName = ''ethereum-mainnet-base-1'',
      isTestnet = False\<rparr>"

text \<open>Scenario 4 of the specification: a feed address that is not hexadecimal.\<close>

definition bad_address_config :: raw_config where
  "bad_address_config = example_config (''feedAddress'' := JString ''0xZZZ'')"

text \<open>The same runtime with the \<open>decimals()\<close> call failing.\<close>

definition failing_env :: env where
  "failing_env =
     example_env \<lparr>callContract := (\<lambda>req.
        if call_data req = ''decimals'' then Inl ''execution reverted'' else Inr [])\<rparr>"

text \<open>A round updated later than any JavaScript date can hold.\<close>

definition late_round :: round_data where
  "late_round = example_round \<lparr>updatedAt := 8640000000001\<rparr>"

definition late_env :: env where
  "late_env = example_env \<lparr>decodeLatestRoundData := (\<lambda>d. Inr late_round)\<rparr>"

text \<open>The values of step 3 in the concrete evaluation.\<close>

definition example_health :: health where
  "example_health =
     \<lparr>price = Finite 2000, updatedAtDate = Finite 1700000000000,
      stalenessMinutes = Finite 5, status = ''OK''\<rparr>"

text \<open>A configuration with an empty schedule, feed name and chain selector name.\<close>

definition blank_config :: raw_config where
  "blank_config =
     example_config (''schedule'' := JString [], ''feedName'' := JString [],
       ''chainSelectorName'' := JString [])"

text \<open>The README configuration with the feed name left empty.\<close>

definition unnamed_config :: raw_config where
  "unnamed_config = example_config (''feedName'' := JString [])"

text \<open>An answer one above \<open>2 ^ 53\<close>, and a negative answer.\<close>

definition odd_round :: round_data where
  "odd_round = example_round \<lparr>answer := 9007199254740993\<rparr>"

definition negative_round :: round_data where
  "negative_round = example_round \<lparr>answer := - 5\<rparr>"

text \<open>
  The threshold \<open>1.7\<close> minutes, that is the binary64 value nearest to \<open>1.7\<close>, a clock
  306 seconds after the update, and the binary64 value nearest to \<open>5.1\<close>.
\<close>

definition tight_threshold :: rat where
  "tight_threshold = 7656119366529843 / 4503599627370496"

definition tight_staleness :: rat where
  "tight_staleness = 2871044762448691 / 562949953421312"

definition tight_config :: raw_config where
  "tight_config =
     example_config (''stalenessThresholdMinutes'' := JNumber (Finite tight_threshold))"

definition tight_parsed :: Config where
  "tight_parsed = example_parsed \<lparr>stalenessThresholdMinutes := Finite tight_threshold\<rparr>"

definition tight_env :: env where
  "tight_env = example_env \<lparr>clock := 1700000306000\<rparr>"

text \<open>
  An answer of \<open>5 * 10 ^ 53\<close> at 34 decimals, and an engine whose value of ten to the
  power 34 is the binary64 value next above the nearest one.
\<close>

definition large_round :: round_data where
  "large_round =
     example_round \<lparr>answer := 500000000000000000000000000000000000000000000000000000\<rparr>"

definition rough_env :: env where
  "rough_env =
     example_env \<lparr>exponentiate10 := (\<lambda>d.
        if d = 34 then Finite 10000000000000000608673814477275136 else fl (10 ^ d))\<rparr>"

section \<open>Rounding to binary64\<close>

lemma pow2_powi: "pow2 e = 2 powi e"
  by (auto simp: pow2_def power_int_def field_simps)

lemma pow2_pos: "0 < pow2 e"
  by (simp add: pow2_powi)

lemma pow2_add: "pow2 (a + b) = pow2 a * pow2 b"
  by (simp add: pow2_powi power_int_add)

lemma pow2_mono: "a \<le> b \<Longrightarrow> pow2 a \<le> pow2 b"
  by (simp add: pow2_powi power_int_increasing)

lemma pow2_strict_mono: "a < b \<Longrightarrow> pow2 a < pow2 b"
  by (simp add: pow2_powi power_int_strict_increasing)

lemma pow2_less_cancel: "pow2 a < pow2 b \<Longrightarrow> a < b"
  using pow2_mono [of b a] by (cases "a < b") auto

lemma pow2_nat: "0 \<le> e \<Longrightarrow> pow2 e = 2 ^ nat e"
  by (simp add: pow2_def)

lemma pow2_numeral: "pow2 (numeral k) = 2 ^ numeral k"
  by (simp add: pow2_def)

lemma pow2_0: "pow2 0 = 1"
  by (simp add: pow2_def)

lemma pow2_diff: "pow2 (a - b) = pow2 a / pow2 b"
  by (simp add: pow2_powi power_int_diff)

lemma round_half_even_near: "\<bar>of_int (round_half_even r) - r\<bar> \<le> 1 / 2"
  unfolding round_half_even_def Let_def
  by (auto simp: abs_if) linarith+

lemma round_half_even_of_int: "round_half_even (of_int n) = n"
  by (simp add: round_half_even_def)

lemma round_half_even_ge: "of_int k \<le> r \<Longrightarrow> k \<le> round_half_even r"
proof -
  assume "of_int k \<le> r"
  then have "k \<le> \<lfloor>r\<rfloor>" by (simp add: le_floor_iff)
  then show ?thesis by (simp add: round_half_even_def Let_def)
qed

lemma round_half_even_le: "r \<le> of_int k \<Longrightarrow> round_half_even r \<le> k"
proof -
  assume a: "r \<le> of_int k"
  show ?thesis
  proof (cases "r = of_int k")
    case True
    then show ?thesis by (simp add: round_half_even_of_int)
  next
    case False
    with a have "r < of_int k" by simp
    then have "\<lfloor>r\<rfloor> < k" by (simp add: floor_less_iff)
    then show ?thesis by (simp add: round_half_even_def Let_def)
  qed
qed

lemma ilog2_ge1:
  assumes "1 \<le> x"
  shows "pow2 (ilog2 x) \<le> x" and "x < pow2 (ilog2 x + 1)"
proof -
  let ?m = "\<lfloor>x\<rfloor>"
  have m: "0 < ?m" using assms by simp
  have e: "ilog2 x = bitlen ?m - 1" using assms by (simp add: ilog2_def)
  have b1: "1 \<le> bitlen ?m" using m by (simp add: bitlen_alt_def)
  have lo: "2 ^ nat (bitlen ?m - 1) \<le> ?m" and hi: "?m < 2 ^ nat (bitlen ?m)"
    using bitlen_bounds [OF m] by simp_all
  have "pow2 (ilog2 x) = of_int (2 ^ nat (bitlen ?m - 1))"
    using b1 by (simp add: e pow2_nat)
  also have "\<dots> \<le> of_int ?m" using lo by (simp only: of_int_le_iff)
  also have "\<dots> \<le> x" by simp
  finally show "pow2 (ilog2 x) \<le> x" .
  have "?m + 1 \<le> 2 ^ nat (bitlen ?m)" using hi by simp
  then have "of_int (?m + 1) \<le> (of_int (2 ^ nat (bitlen ?m)) :: rat)"
    by (simp only: of_int_le_iff)
  moreover have "x < of_int (?m + 1)" by linarith
  moreover have "pow2 (ilog2 x + 1) = of_int (2 ^ nat (bitlen ?m))"
    using b1 by (simp add: e pow2_nat)
  ultimately show "x < pow2 (ilog2 x + 1)" by simp
qed

lemma ilog2_lt1:
  assumes "0 < x" "x < 1"
  shows "pow2 (ilog2 x) \<le> x" and "x < pow2 (ilog2 x + 1)"
proof -
  let ?y = "1 / x"
  let ?m = "\<lceil>?y\<rceil> - 1"
  let ?k = "bitlen ?m"
  have y: "1 < ?y" using assms by simp
  then have c: "2 \<le> \<lceil>?y\<rceil>" by (simp add: le_ceiling_iff)
  then have m: "0 < ?m" by simp
  have e: "ilog2 x = - ?k" using assms by (simp add: ilog2_def)
  have k1: "1 \<le> ?k" using m by (simp add: bitlen_alt_def)
  have lo: "2 ^ nat (?k - 1) \<le> ?m" and hi: "?m < 2 ^ nat ?k"
    using bitlen_bounds [OF m] by simp_all
  have "?y \<le> of_int \<lceil>?y\<rceil>" by (rule le_of_int_ceiling)
  also have "\<dots> \<le> of_int (2 ^ nat ?k)"
    using hi by simp
  finally have "?y \<le> 2 ^ nat ?k" by simp
  then have "1 \<le> x * 2 ^ nat ?k" using assms by (simp add: field_simps)
  then have "1 / 2 ^ nat ?k \<le> x" by (simp add: field_simps)
  moreover have "pow2 (ilog2 x) = 1 / 2 ^ nat ?k"
    using k1 by (simp add: e pow2_def)
  ultimately show "pow2 (ilog2 x) \<le> x" by simp
  have "(of_int (2 ^ nat (?k - 1)) :: rat) \<le> of_int ?m"
    using lo by (simp only: of_int_le_iff)
  also have "(of_int ?m :: rat) < ?y" using ceiling_correct [of ?y] by simp
  finally have "2 ^ nat (?k - 1) < ?y" by simp
  then have "x * 2 ^ nat (?k - 1) < 1" using assms by (simp add: field_simps)
  then have "x < 1 / 2 ^ nat (?k - 1)" by (simp add: field_simps)
  moreover have "pow2 (ilog2 x + 1) = 1 / 2 ^ nat (?k - 1)"
  proof (cases "?k = 1")
    case True
    then show ?thesis by (simp add: e pow2_def)
  next
    case False
    with k1 have "1 < ?k" by simp
    then have "- ?k + 1 < 0" "nat (?k - 1) = nat (- (- ?k + 1))" by simp_all
    then show ?thesis by (simp add: e pow2_def)
  qed
  ultimately show "x < pow2 (ilog2 x + 1)" by simp
qed

lemma ilog2_bounds:
  assumes "0 < x"
  shows "pow2 (ilog2 x) \<le> x" and "x < pow2 (ilog2 x + 1)"
  using assms ilog2_ge1 [of x] ilog2_lt1 [of x] by (cases "1 \<le> x"; simp)+

lemma ilog2_unique:
  assumes "pow2 e \<le> x" "x < pow2 (e + 1)"
  shows "ilog2 x = e"
proof -
  have x: "0 < x" using assms(1) pow2_pos [of e] by simp
  have "pow2 e < pow2 (ilog2 x + 1)" using assms(1) ilog2_bounds(2) [OF x] by simp
  then have "e < ilog2 x + 1" by (rule pow2_less_cancel)
  moreover have "pow2 (ilog2 x) < pow2 (e + 1)" using assms(2) ilog2_bounds(1) [OF x] by simp
  then have "ilog2 x < e + 1" by (rule pow2_less_cancel)
  ultimately show ?thesis by simp
qed

lemma ilog2_ge: "pow2 e \<le> x \<Longrightarrow> e \<le> ilog2 x"
proof -
  assume a: "pow2 e \<le> x"
  then have x: "0 < x" using pow2_pos [of e] by simp
  have "pow2 e < pow2 (ilog2 x + 1)" using a ilog2_bounds(2) [OF x] by simp
  then have "e < ilog2 x + 1" by (rule pow2_less_cancel)
  then show ?thesis by simp
qed

lemma ilog2_less: "0 < x \<Longrightarrow> x < pow2 e \<Longrightarrow> ilog2 x < e"
proof -
  assume x: "0 < x" and a: "x < pow2 e"
  have "pow2 (ilog2 x) < pow2 e" using a ilog2_bounds(1) [OF x] by simp
  then show ?thesis by (rule pow2_less_cancel)
qed

lemma quantum_ge: "- 1074 \<le> quantum x"
  by (simp add: quantum_def)

lemma rounded_err: "\<bar>rounded x - x\<bar> \<le> pow2 (quantum x) / 2"
proof -
  let ?p = "pow2 (quantum x)"
  have p: "0 < ?p" by (rule pow2_pos)
  have "\<bar>of_int (round_half_even (x / ?p)) - x / ?p\<bar> \<le> 1 / 2"
    by (rule round_half_even_near)
  then have "\<bar>of_int (round_half_even (x / ?p)) - x / ?p\<bar> * ?p \<le> 1 / 2 * ?p"
    using p by (simp only: mult_le_cancel_right_pos)
  moreover have "\<bar>of_int (round_half_even (x / ?p)) - x / ?p\<bar> * ?p = \<bar>rounded x - x\<bar>"
  proof -
    have "\<bar>of_int (round_half_even (x / ?p)) - x / ?p\<bar> * ?p
          = \<bar>(of_int (round_half_even (x / ?p)) - x / ?p) * ?p\<bar>"
      using p by (simp add: abs_mult)
    also have "(of_int (round_half_even (x / ?p)) - x / ?p) * ?p = rounded x - x"
      using p by (simp add: rounded_def algebra_simps)
    finally show ?thesis .
  qed
  ultimately show ?thesis by simp
qed

lemma rounded_ge: "of_int a * pow2 (quantum x) \<le> x \<Longrightarrow> of_int a * pow2 (quantum x) \<le> rounded x"
proof -
  let ?p = "pow2 (quantum x)"
  assume a: "of_int a * ?p \<le> x"
  have p: "0 < ?p" by (rule pow2_pos)
  from a p have "of_int a \<le> x / ?p" by (simp add: pos_le_divide_eq)
  then have "a \<le> round_half_even (x / ?p)" by (rule round_half_even_ge)
  then have "(of_int a :: rat) \<le> of_int (round_half_even (x / ?p))" by (simp only: of_int_le_iff)
  then show ?thesis using p by (simp add: rounded_def)
qed

lemma rounded_le: "x \<le> of_int b * pow2 (quantum x) \<Longrightarrow> rounded x \<le> of_int b * pow2 (quantum x)"
proof -
  let ?p = "pow2 (quantum x)"
  assume a: "x \<le> of_int b * ?p"
  have p: "0 < ?p" by (rule pow2_pos)
  from a p have "x / ?p \<le> of_int b" by (simp add: pos_divide_le_eq)
  then have "round_half_even (x / ?p) \<le> b" by (rule round_half_even_le)
  then have "(of_int (round_half_even (x / ?p)) :: rat) \<le> of_int b" by (simp only: of_int_le_iff)
  then show ?thesis using p by (simp add: rounded_def)
qed

lemma rounded_exact: "x / pow2 (quantum x) = of_int m \<Longrightarrow> rounded x = x"
proof -
  let ?p = "pow2 (quantum x)"
  assume a: "x / ?p = of_int m"
  have p: "0 < ?p" by (rule pow2_pos)
  have "rounded x = of_int (round_half_even (of_int m)) * ?p"
    by (simp only: rounded_def a)
  also have "\<dots> = x / ?p * ?p" by (simp only: round_half_even_of_int a)
  also have "\<dots> = x" using p by simp
  finally show ?thesis .
qed

lemma quantum_normal: "0 < x \<Longrightarrow> - 1022 \<le> ilog2 x \<Longrightarrow> quantum x = ilog2 x - 52"
  by (simp add: quantum_def)

lemma quantum_neg: "quantum (- x) = quantum x"
  by (simp add: quantum_def)

text \<open>A positive value in the normal range is rounded within its binade.\<close>

lemma rounded_binade:
  assumes "0 < x" "- 1022 \<le> ilog2 x"
  shows "pow2 (ilog2 x) \<le> rounded x" and "rounded x \<le> pow2 (ilog2 x + 1)"
proof -
  let ?e = "ilog2 x"
  have q: "quantum x = ?e - 52" using assms by (rule quantum_normal)
  have lo: "of_int (2 ^ 52) * pow2 (quantum x) = pow2 ?e"
    using pow2_add [of 52 "?e - 52"] by (simp add: q pow2_numeral)
  have "pow2 (?e + 1) = pow2 53 * pow2 (?e - 52)"
    using pow2_add [of 53 "?e - 52"] by (simp add: algebra_simps)
  then have hi: "of_int (2 ^ 53) * pow2 (quantum x) = pow2 (?e + 1)"
    by (simp add: q pow2_numeral)
  have "of_int (2 ^ 52) * pow2 (quantum x) \<le> rounded x"
    by (rule rounded_ge) (simp only: lo ilog2_bounds(1) [OF assms(1)])
  then show "pow2 ?e \<le> rounded x" by (simp only: lo)
  have "x \<le> of_int (2 ^ 53) * pow2 (quantum x)"
    using ilog2_bounds(2) [OF assms(1)] by (simp only: hi)
  then have "rounded x \<le> of_int (2 ^ 53) * pow2 (quantum x)" by (rule rounded_le)
  then show "rounded x \<le> pow2 (?e + 1)" by (simp only: hi)
qed

lemma rounded_binade_neg:
  assumes "x < 0" "- 1022 \<le> ilog2 (- x)"
  shows "rounded x \<le> - pow2 (ilog2 (- x))" and "- pow2 (ilog2 (- x) + 1) \<le> rounded x"
proof -
  let ?e = "ilog2 (- x)"
  have nx: "0 < - x" using assms(1) by simp
  have q: "quantum x = ?e - 52" using quantum_normal [OF nx assms(2)] by (simp add: quantum_neg)
  have lo: "of_int (- (2 ^ 52)) * pow2 (quantum x) = - pow2 ?e"
    using pow2_add [of 52 "?e - 52"] by (simp add: q pow2_numeral)
  have "pow2 (?e + 1) = pow2 53 * pow2 (?e - 52)"
    using pow2_add [of 53 "?e - 52"] by (simp add: algebra_simps)
  then have hi: "of_int (- (2 ^ 53)) * pow2 (quantum x) = - pow2 (?e + 1)"
    by (simp add: q pow2_numeral)
  have "x \<le> of_int (- (2 ^ 52)) * pow2 (quantum x)"
    using ilog2_bounds(1) [OF nx] by (simp only: lo)
  then have "rounded x \<le> of_int (- (2 ^ 52)) * pow2 (quantum x)" by (rule rounded_le)
  then show "rounded x \<le> - pow2 ?e" by (simp only: lo)
  have "of_int (- (2 ^ 53)) * pow2 (quantum x) \<le> x"
    using ilog2_bounds(2) [OF nx] by (simp only: hi)
  then have "of_int (- (2 ^ 53)) * pow2 (quantum x) \<le> rounded x" by (rule rounded_ge)
  then show "- pow2 (?e + 1) \<le> rounded x" by (simp only: hi)
qed

lemma fl_FiniteD:
  assumes "fl x = Finite v"
  shows "v = rounded x" and "v < pow2 1024" and "- pow2 1024 < v"
proof -
  have r0: "rounded 0 = 0" by (simp add: rounded_def round_half_even_def)
  show "v = rounded x" using assms r0 by (auto simp: fl_def split: if_splits)
  show "v < pow2 1024" using assms pow2_pos [of 1024] by (auto simp: fl_def split: if_splits)
  show "- pow2 1024 < v" using assms pow2_pos [of 1024] by (auto simp: fl_def split: if_splits)
qed

lemma fl_cases:
  "fl x = PosInfinity \<and> pow2 1024 \<le> rounded x \<or>
   fl x = NegInfinity \<and> rounded x \<le> - pow2 1024 \<or>
   fl x = Finite (rounded x)"
proof -
  have r0: "rounded 0 = 0" by (simp add: rounded_def round_half_even_def)
  show ?thesis using r0 by (auto simp: fl_def)
qed

lemma fl_not_NaN: "fl x \<noteq> NaN"
  by (simp add: fl_def)

text \<open>The smallest positive binary64 value is \<open>2 ^ - 1074\<close>.\<close>

lemma double_min_pos:
  assumes "fl t = Finite t" "0 < t"
  shows "pow2 (- 1074) \<le> t"
proof -
  let ?p = "pow2 (quantum t)"
  let ?n = "round_half_even (t / ?p)"
  have p: "0 < ?p" by (rule pow2_pos)
  have t: "t = of_int ?n * ?p" using fl_FiniteD(1) [OF assms(1)] by (simp only: rounded_def)
  have "0 < of_int ?n * ?p" using assms(2) t by simp
  then have "0 < (of_int ?n :: rat)" using p by (simp add: zero_less_mult_iff)
  then have "1 \<le> ?n" by simp
  then have "(1 :: rat) \<le> of_int ?n" by (simp only: of_int_1_le_iff)
  then have "1 * ?p \<le> of_int ?n * ?p" using p by (simp only: mult_le_cancel_right_pos)
  then have "?p \<le> t" using t by simp
  moreover have "pow2 (- 1074) \<le> ?p" by (rule pow2_mono) (rule quantum_ge)
  ultimately show ?thesis by simp
qed

text \<open>Three times a positive binary64 value, rounded, is still above the value.\<close>

lemma double_lt_triple:
  assumes "fl t = Finite t" "0 < t"
  shows "js_lt (Finite t) (fl (t * 3))"
proof -
  let ?x = "t * 3"
  let ?p = "pow2 (quantum ?x)"
  have x: "0 < ?x" using assms(2) by simp
  have p4: "?p < 4 * t"
  proof (cases "- 1022 \<le> ilog2 ?x")
    case True
    then have "quantum ?x = ilog2 ?x - 52" using x by (simp add: quantum_normal)
    then have "?p = pow2 (ilog2 ?x) / pow2 52" by (simp add: pow2_diff)
    also have "\<dots> \<le> pow2 (ilog2 ?x)" using pow2_pos [of "ilog2 ?x"] by (simp add: pow2_numeral field_simps)
    also have "\<dots> \<le> ?x" by (rule ilog2_bounds(1) [OF x])
    finally show ?thesis using assms(2) by simp
  next
    case False
    then have "quantum ?x = - 1074" using x by (simp add: quantum_def)
    then have "?p \<le> t" using double_min_pos [OF assms] by simp
    then show ?thesis using assms(2) by simp
  qed
  have "\<bar>rounded ?x - ?x\<bar> \<le> ?p / 2" by (rule rounded_err)
  then have r: "t < rounded ?x" using p4 by linarith
  have "\<not> rounded ?x \<le> - pow2 1024" using r assms(2) pow2_pos [of 1024] by simp
  then show ?thesis using fl_cases [of ?x] r by auto
qed

text \<open>Integers of magnitude up to \<open>2 ^ 53\<close> are binary64 values.\<close>

lemma rounded_int_exact:
  assumes "\<bar>n\<bar> \<le> 2 ^ 53"
  shows "rounded (of_int n) = of_int n"
proof (cases "n = 0")
  case True
  then show ?thesis by (simp add: rounded_def round_half_even_def)
next
  case False
  let ?x = "of_int n :: rat"
  let ?e = "ilog2 \<bar>?x\<bar>"
  have a1: "1 \<le> \<bar>?x\<bar>" using False by (simp flip: of_int_abs)
  have a0: "0 < \<bar>?x\<bar>" using a1 by simp
  have e0: "0 \<le> ?e" using ilog2_ge [of 0 "\<bar>?x\<bar>"] a1 by (simp add: pow2_0)
  have up: "\<bar>?x\<bar> \<le> 2 ^ 53" using assms by (simp flip: of_int_abs add: of_int_le_numeral_power_cancel_iff)
  have q: "quantum ?x = ?e - 52" using e0 by (simp add: quantum_def)
  show ?thesis
  proof (cases "?e \<le> 52")
    case True
    then have "pow2 (?e - 52) = 1 / 2 ^ nat (52 - ?e)"
      by (cases "?e = 52") (simp_all add: pow2_def)
    then have "?x / pow2 (quantum ?x) = of_int (n * 2 ^ nat (52 - ?e))"
      by (simp add: q)
    then show ?thesis by (rule rounded_exact)
  next
    case False
    then have "53 \<le> ?e" by simp
    then have "pow2 53 \<le> pow2 ?e" by (rule pow2_mono)
    also have "\<dots> \<le> \<bar>?x\<bar>" by (rule ilog2_bounds(1) [OF a0])
    finally have "\<bar>?x\<bar> = 2 ^ 53" using up by (simp add: pow2_numeral)
    then have abs: "\<bar>n\<bar> = 2 ^ 53" by (simp flip: of_int_abs add: of_int_eq_numeral_power_cancel_iff)
    then have "ilog2 \<bar>?x\<bar> = 53"
      by (intro ilog2_unique) (simp_all flip: of_int_abs add: pow2_numeral)
    then have q1: "quantum ?x = 1" by (simp add: q)
    from abs have "n = 2 ^ 53 \<or> n = - (2 ^ 53)" by (simp add: abs_if split: if_splits)
    then have "?x / pow2 (quantum ?x) = of_int (n div 2)"
      by (auto simp: q1 pow2_def)
    then show ?thesis by (rule rounded_exact)
  qed
qed

lemma fl_int_exact: "\<bar>n\<bar> \<le> 2 ^ 53 \<Longrightarrow> fl (of_int n) = Finite (of_int n)"
proof -
  assume a: "\<bar>n\<bar> \<le> 2 ^ 53"
  have r: "rounded (of_int n) = of_int n" using a by (rule rounded_int_exact)
  have "\<bar>of_int n :: rat\<bar> \<le> 2 ^ 53" using a by (simp flip: of_int_abs add: of_int_le_numeral_power_cancel_iff)
  moreover have "(2 :: rat) ^ 53 < pow2 1024" by (simp add: pow2_numeral)
  ultimately have "\<bar>of_int n :: rat\<bar> < pow2 1024" by simp
  then show ?thesis by (simp add: fl_def r abs_less_iff)
qed

text \<open>Rounding never goes below a binary64 value that the argument is not below.\<close>

lemma rounded_mono_double:
  assumes "0 < a" "rounded a = a" "a \<le> x"
  shows "a \<le> rounded x"
proof -
  have x: "0 < x" using assms by simp
  have ea: "ilog2 a \<le> ilog2 x"
    using ilog2_ge [of "ilog2 a" x] ilog2_bounds(1) [OF assms(1)] assms(3) by simp
  show ?thesis
  proof (cases "quantum a = quantum x")
    case True
    have "a = of_int (round_half_even (a / pow2 (quantum a))) * pow2 (quantum a)"
      using assms(2) by (simp only: rounded_def)
    then have a: "a = of_int (round_half_even (a / pow2 (quantum a))) * pow2 (quantum x)"
      by (simp only: True)
    have "of_int (round_half_even (a / pow2 (quantum a))) * pow2 (quantum x) \<le> rounded x"
      by (rule rounded_ge) (use a assms(3) in simp)
    then show ?thesis using a by simp
  next
    case False
    then have n: "- 1022 \<le> ilog2 x" and lt: "ilog2 a < ilog2 x"
      using ea assms(1) x by (auto simp: quantum_def max_def split: if_splits)
    have "a < pow2 (ilog2 a + 1)" by (rule ilog2_bounds(2) [OF assms(1)])
    also have "\<dots> \<le> pow2 (ilog2 x)" by (rule pow2_mono) (use lt in simp)
    also have "\<dots> \<le> rounded x" by (rule rounded_binade(1) [OF x n])
    finally show ?thesis by simp
  qed
qed

lemma fl_ge_double:
  assumes "0 < a" "rounded a = a" "a \<le> x"
  shows "fl x = PosInfinity \<or> (\<exists>v. fl x = Finite v \<and> a \<le> v)"
proof -
  have r: "a \<le> rounded x" using assms by (rule rounded_mono_double)
  have "\<not> rounded x \<le> - pow2 1024" using r assms(1) pow2_pos [of 1024] by simp
  then show ?thesis using fl_cases [of x] r by auto
qed

text \<open>In the normal range rounding is finite, keeps the sign and errs by at most \<open>2 ^ - 53\<close>.\<close>

lemma fl_normal:
  assumes "pow2 l \<le> \<bar>x\<bar>" "\<bar>x\<bar> < pow2 h" "- 1022 \<le> l" "h \<le> 1023"
  shows "\<exists>v. fl x = Finite v \<and> \<bar>v - x\<bar> \<le> \<bar>x\<bar> / 2 ^ 53 \<and> pow2 l \<le> \<bar>v\<bar> \<and> \<bar>v\<bar> \<le> pow2 h \<and>
           (0 < x \<longrightarrow> 0 < v) \<and> (x < 0 \<longrightarrow> v < 0)"
proof -
  let ?e = "ilog2 \<bar>x\<bar>"
  have x0: "0 < \<bar>x\<bar>" using assms(1) pow2_pos [of l] by linarith
  have el: "l \<le> ?e" using assms(1) by (rule ilog2_ge)
  have eh: "?e < h" using x0 assms(2) by (rule ilog2_less)
  have n: "- 1022 \<le> ?e" using el assms(3) by simp
  have q: "quantum x = ?e - 52" using n by (simp add: quantum_def)
  have "pow2 (quantum x) / 2 = pow2 ?e / 2 ^ 53"
    by (simp add: q pow2_diff pow2_numeral)
  also have "\<dots> \<le> \<bar>x\<bar> / 2 ^ 53"
    using ilog2_bounds(1) [OF x0] by (simp add: divide_right_mono)
  finally have err: "\<bar>rounded x - x\<bar> \<le> \<bar>x\<bar> / 2 ^ 53"
    using rounded_err [of x] by simp
  have lo: "pow2 l \<le> pow2 ?e" using el by (rule pow2_mono)
  have hi: "pow2 (?e + 1) \<le> pow2 h" using eh by (intro pow2_mono) simp
  have big: "pow2 h < pow2 1024" using assms(4) by (intro pow2_strict_mono) simp
  have r: "pow2 l \<le> \<bar>rounded x\<bar> \<and> \<bar>rounded x\<bar> \<le> pow2 h \<and>
           (0 < x \<longrightarrow> 0 < rounded x) \<and> (x < 0 \<longrightarrow> rounded x < 0)"
  proof (cases "0 < x")
    case True
    then have e: "\<bar>x\<bar> = x" by simp
    have "pow2 ?e \<le> rounded x" "rounded x \<le> pow2 (?e + 1)"
      using rounded_binade [OF True] n by (simp_all add: e)
    then show ?thesis using lo hi True pow2_pos [of ?e] by (simp add: abs_if; linarith)
  next
    case False
    then have neg: "x < 0" using x0 by simp
    then have e: "\<bar>x\<bar> = - x" by simp
    have "rounded x \<le> - pow2 ?e" "- pow2 (?e + 1) \<le> rounded x"
      using rounded_binade_neg [OF neg] n by (simp_all add: e)
    then show ?thesis using lo hi neg pow2_pos [of ?e] by (simp add: abs_if; linarith)
  qed
  then have "\<bar>rounded x\<bar> < pow2 1024" using big by linarith
  then have "\<not> pow2 1024 \<le> rounded x" "\<not> rounded x \<le> - pow2 1024"
    by linarith+
  then have "fl x = Finite (rounded x)" using fl_cases [of x] by auto
  then show ?thesis using err r by blast
qed

text \<open>Rounding never goes above a binary64 value that the argument is not above.\<close>

lemma rounded_le_double:
  assumes "0 < x" "rounded a = a" "x \<le> a"
  shows "rounded x \<le> a"
proof -
  have a0: "0 < a" using assms(1,3) by simp
  have "ilog2 x \<le> ilog2 a"
    using ilog2_ge [of "ilog2 x" a] ilog2_bounds(1) [OF assms(1)] assms(3) by simp
  then have q: "quantum x \<le> quantum a" using assms(1) a0 by (simp add: quantum_def)
  define k where "k = nat (quantum a - quantum x)"
  define n where "n = round_half_even (a / pow2 (quantum a))"
  have "quantum a = quantum x + int k" using q by (simp add: k_def)
  then have "pow2 (quantum a) = pow2 (quantum x) * pow2 (int k)" by (simp only: pow2_add)
  also have "pow2 (int k) = 2 ^ k" by (simp add: pow2_def)
  finally have p: "pow2 (quantum a) = pow2 (quantum x) * 2 ^ k" .
  have "a = of_int n * pow2 (quantum a)" using assms(2) by (simp only: rounded_def n_def)
  then have a: "a = of_int (n * 2 ^ k) * pow2 (quantum x)" by (simp add: p)
  have "x \<le> of_int (n * 2 ^ k) * pow2 (quantum x)" using assms(3) a by simp
  then have "rounded x \<le> of_int (n * 2 ^ k) * pow2 (quantum x)" by (rule rounded_le)
  then show ?thesis using a by simp
qed

lemma fl_le_double:
  assumes "0 < x" "fl a = Finite a" "x \<le> a"
  shows "\<exists>v. fl x = Finite v \<and> v \<le> a"
proof -
  have ra: "rounded a = a" using fl_FiniteD(1) [OF assms(2)] by simp
  have big: "a < pow2 1024" using fl_FiniteD(2) [OF assms(2)] .
  have r: "rounded x \<le> a" using assms(1) ra assms(3) by (rule rounded_le_double)
  have "of_int 0 * pow2 (quantum x) \<le> x" using assms(1) by simp
  then have "of_int 0 * pow2 (quantum x) \<le> rounded x" by (rule rounded_ge)
  then have p: "0 \<le> rounded x" by simp
  have "\<not> pow2 1024 \<le> rounded x" using r big by simp
  moreover have "\<not> rounded x \<le> - pow2 1024" using p pow2_pos [of 1024] by simp
  ultimately have "fl x = Finite (rounded x)" using fl_cases [of x] by auto
  then show ?thesis using r by simp
qed

text \<open>Rounding keeps the sign of whatever is not below the least positive value.\<close>

lemma quantum_le_abs:
  assumes "pow2 (- 1074) \<le> \<bar>x\<bar>"
  shows "pow2 (quantum x) \<le> \<bar>x\<bar>"
proof (cases "- 1022 \<le> ilog2 \<bar>x\<bar>")
  case True
  have x0: "0 < \<bar>x\<bar>" using assms pow2_pos [of "- 1074"] by linarith
  have "quantum x = ilog2 \<bar>x\<bar> - 52" using True by (simp add: quantum_def)
  then have "pow2 (quantum x) \<le> pow2 (ilog2 \<bar>x\<bar>)" by (simp add: pow2_mono)
  also have "\<dots> \<le> \<bar>x\<bar>" by (rule ilog2_bounds(1) [OF x0])
  finally show ?thesis .
next
  case False
  then have "quantum x = - 1074" by (simp add: quantum_def)
  then show ?thesis using assms by simp
qed

lemma fl_negative:
  assumes "x \<le> - pow2 (- 1074)"
  shows "js_lt (fl x) (Finite 0)"
proof -
  have ax: "\<bar>x\<bar> = - x" using assms pow2_pos [of "- 1074"] by linarith
  have "pow2 (quantum x) \<le> \<bar>x\<bar>" using assms ax by (intro quantum_le_abs) simp
  then have "x \<le> of_int (- 1) * pow2 (quantum x)" using ax by simp
  then have "rounded x \<le> of_int (- 1) * pow2 (quantum x)" by (rule rounded_le)
  then have r: "rounded x < 0" using pow2_pos [of "quantum x"] by simp
  then have "\<not> pow2 1024 \<le> rounded x" using pow2_pos [of 1024] by linarith
  then show ?thesis using fl_cases [of x] r by auto
qed

lemma fl_positive:
  assumes "pow2 (- 1074) \<le> x"
  shows "js_lt (Finite 0) (fl x)"
proof -
  have ax: "\<bar>x\<bar> = x" using assms pow2_pos [of "- 1074"] by linarith
  have "pow2 (quantum x) \<le> \<bar>x\<bar>" using assms ax by (intro quantum_le_abs) simp
  then have "of_int 1 * pow2 (quantum x) \<le> x" using ax by simp
  then have "of_int 1 * pow2 (quantum x) \<le> rounded x" by (rule rounded_ge)
  then have r: "0 < rounded x" using pow2_pos [of "quantum x"] by simp
  then have "\<not> rounded x \<le> - pow2 1024" using pow2_pos [of 1024] by linarith
  then show ?thesis using fl_cases [of x] r by auto
qed

section \<open>Evaluating numbers\<close>

lemma fl_0: "fl 0 = Finite 0"
  by (simp add: fl_def)

lemma fl_1: "fl 1 = Finite 1"
  using fl_int_exact [of 1] by simp

lemma fl_numeral: "numeral k \<le> (2 :: int) ^ 53 \<Longrightarrow> fl (numeral k) = Finite (numeral k)"
  using fl_int_exact [of "numeral k"] by simp

lemma floor_numeral_div: "\<lfloor>(numeral a :: rat) / numeral b\<rfloor> = numeral a div numeral b"
  using floor_divide_of_int_eq [of "numeral a" "numeral b", where ?'a = rat] by simp

lemma fl_odd: "fl 9007199254740993 = Finite 9007199254740992"
  by (simp add: fl_def rounded_def quantum_def ilog2_def pow2_def round_half_even_def Let_def
      compute_bitlen floor_numeral_div)

lemma digits_numeral:
  "digits (numeral k) =
     (if (numeral k :: nat) < 10 then [''0123456789'' ! numeral k]
      else digits (numeral k div 10) @ [''0123456789'' ! (numeral k mod 10)])"
  by (rule digits.simps)

text \<open>The values of the evaluations with the threshold \<open>1.7\<close> and with 34 decimals.\<close>

lemma tight_threshold_double: "fl tight_threshold = Finite tight_threshold"
  by (simp add: tight_threshold_def fl_def rounded_def quantum_def ilog2_def pow2_def
      round_half_even_def Let_def compute_bitlen floor_numeral_div)

lemma tight_threshold_nearest: "fl (17 / 10) = Finite tight_threshold"
  by (simp add: tight_threshold_def fl_def rounded_def quantum_def ilog2_def pow2_def
      round_half_even_def Let_def compute_bitlen floor_numeral_div)

lemma tight_triple: "fl (tight_threshold * 3) = Finite tight_staleness"
  by (simp add: tight_threshold_def tight_staleness_def fl_def rounded_def quantum_def ilog2_def
      pow2_def round_half_even_def Let_def compute_bitlen floor_numeral_div)

lemma tight_quotient: "fl (51 / 10) = Finite tight_staleness"
  by (simp add: tight_staleness_def fl_def rounded_def quantum_def ilog2_def
      pow2_def round_half_even_def Let_def compute_bitlen floor_numeral_div)

lemma rough_double:
  "fl 10000000000000000608673814477275136 = Finite 10000000000000000608673814477275136"
  by (simp add: fl_def rounded_def quantum_def ilog2_def pow2_def
      round_half_even_def Let_def compute_bitlen floor_numeral_div)

lemma large_price_rough:
  "js_div (Number_of_bigint 500000000000000000000000000000000000000000000000000000)
     (Finite 10000000000000000608673814477275136) = Finite 50000000000000000000"
  by (simp add: Number_of_bigint_def fl_def rounded_def quantum_def ilog2_def pow2_def
      round_half_even_def Let_def compute_bitlen floor_numeral_div)

lemma large_price_nearest:
  "js_div (Number_of_bigint 500000000000000000000000000000000000000000000000000000)
     (fl (10 ^ 34)) = Finite 50000000000000008192"
  by (simp add: Number_of_bigint_def fl_def rounded_def quantum_def ilog2_def pow2_def
      round_half_even_def Let_def compute_bitlen floor_numeral_div)

section \<open>Comparison, formatting, dates and the price\<close>

lemma js_le_Finite: "js_le (Finite a) s \<Longrightarrow> \<not> js_lt s (Finite a)"
  by (cases s) (auto simp: js_le_def)

lemma js_lt_le_trans: "js_lt a b \<Longrightarrow> js_le b s \<Longrightarrow> js_lt a s"
  by (cases a; cases b; cases s) (auto simp: js_le_def)

lemma js_lt_asym: "js_lt a s \<Longrightarrow> \<not> js_lt s a"
  by (cases a; cases s) auto

lemma js_lt_irrefl: "\<not> js_lt a a"
  by (cases a) auto

lemma status_same: "status_main s t = status_part s t"
  by (simp add: status_main_def status_part_def)

lemma digits_set: "set (digits n) \<subseteq> set ''0123456789''"
proof (induction n rule: digits.induct)
  case (1 n)
  have nth: "''0123456789'' ! k \<in> set ''0123456789''" if "k < 10" for k
    using that nth_mem [of k "''0123456789''"] by simp
  show ?case
  proof (cases "n < 10")
    case True
    then show ?thesis using nth [of n] by (subst digits.simps) simp
  next
    case False
    then have "set (digits (n div 10)) \<subseteq> set ''0123456789''" by (rule "1.IH")
    moreover have "''0123456789'' ! (n mod 10) \<in> set ''0123456789''" by (rule nth) simp
    ultimately show ?thesis using False by (subst digits.simps) simp
  qed
qed

text \<open>Below \<open>10 ^ 21\<close>, \<open>toFixed f\<close> prints exactly \<open>f\<close> digits after a point.\<close>

lemma toFixed_places:
  assumes "\<bar>r\<bar> < 10 ^ 21" "0 < f"
  shows "\<exists>a b. toFixed big f (Finite r) = a @ ''.'' @ b \<and> length b = f \<and>
           set b \<subseteq> set ''0123456789''"
proof -
  let ?m = "digits (nat \<lfloor>\<bar>r\<bar> * 10 ^ f + 1 / 2\<rfloor>)"
  let ?z = "replicate (f + 1 - length ?m) (CHR ''0'') @ ?m"
  let ?k = "length ?z"
  let ?s = "if r < 0 then ''-'' else []"
  have k: "f \<le> ?k" by (simp only: length_append length_replicate)
  have eq: "toFixed big f (Finite r) = (?s @ take (?k - f) ?z) @ ''.'' @ drop (?k - f) ?z"
    using assms by (simp add: toFixed_def Let_def)
  have len: "length (drop (?k - f) ?z) = f" using k by (simp only: length_drop) arith
  have "set ?z \<subseteq> set ''0123456789''" using digits_set [of "nat \<lfloor>\<bar>r\<bar> * 10 ^ f + 1 / 2\<rfloor>"] by auto
  then have "set (drop (?k - f) ?z) \<subseteq> set ''0123456789''"
    using set_drop_subset [of "?k - f" ?z] by blast
  then show ?thesis using eq len by blast
qed

lemma TimeClip_large: "8640000000000000 < v \<Longrightarrow> TimeClip (Finite v) = NaN"
  by (simp add: TimeClip_def)

text \<open>Seconds beyond \<open>8.64e12\<close> give an invalid date.\<close>

lemma date_invalid:
  assumes "8640000000000 < u"
  shows "Date_new (js_mul (Number_of_bigint u) (Finite 1000)) = NaN"
proof -
  have a: "rounded (of_int 8640000000001) = of_int 8640000000001"
    by (rule rounded_int_exact) simp
  have a': "rounded (of_int 8640000000001000) = of_int 8640000000001000"
    by (rule rounded_int_exact) simp
  have "8640000000001 \<le> u" using assms by simp
  then have "(of_int 8640000000001 :: rat) \<le> of_int u" by (simp only: of_int_le_iff)
  then have "(8640000000001 :: rat) \<le> of_int u" by simp
  then consider "fl (of_int u) = PosInfinity" | w where "fl (of_int u) = Finite w" "8640000000001 \<le> w"
    using fl_ge_double [of 8640000000001 "of_int u"] a by auto
  then show ?thesis
  proof cases
    case 1
    then show ?thesis by (simp add: Number_of_bigint_def Date_new_def TimeClip_def)
  next
    case 2
    then have "(8640000000001000 :: rat) \<le> w * 1000" by simp
    then consider "fl (w * 1000) = PosInfinity"
      | v where "fl (w * 1000) = Finite v" "8640000000001000 \<le> v"
      using fl_ge_double [of 8640000000001000 "w * 1000"] a' by auto
    then show ?thesis
    proof cases
      case 1
      then show ?thesis using 2(1) by (simp add: Number_of_bigint_def Date_new_def TimeClip_def)
    next
      case 2
      note v = this
      then have "TimeClip (Finite v) = NaN" by (intro TimeClip_large) simp
      then show ?thesis using \<open>fl (of_int u) = Finite w\<close> v(1)
        by (simp add: Number_of_bigint_def Date_new_def)
    qed
  qed
qed

lemma pow10_bound: "d < 256 \<Longrightarrow> (10 :: rat) ^ d < pow2 848"
proof -
  assume "d < 256"
  then have "(10 :: rat) ^ d \<le> 10 ^ 255" by (intro power_increasing) simp_all
  also have "(10 :: rat) ^ 255 < 2 ^ 848" by simp
  finally show ?thesis by (simp add: pow2_numeral)
qed

text \<open>A binary64 staleness that is not below the real \<open>3t\<close> is not below the product.\<close>

lemma status_fail_real:
  assumes "fl t = Finite t" "0 < t" "is_double s" "js_le (Finite (3 * t)) s"
  shows "status_main s (Finite t) = ''FAIL''"
proof (cases s)
  case (Finite v)
  have d: "fl v = Finite v" using assms(3) Finite by simp
  have le: "3 * t \<le> v" using assms(4) Finite by (auto simp: js_le_def)
  have "0 < t * 3" "t * 3 \<le> v" using assms(2) le by simp_all
  then obtain w where w: "fl (t * 3) = Finite w" "w \<le> v" using fl_le_double [OF _ d] by blast
  have "\<not> v < t" using le assms(2) by simp
  then show ?thesis using w Finite by (simp add: status_main_def)
next
  case PosInfinity
  have "\<not> js_lt PosInfinity x" for x by (cases x) simp_all
  then show ?thesis using PosInfinity by (simp add: status_main_def)
qed (use assms(4) in \<open>simp_all add: js_le_def\<close>)

text \<open>
  Three roundings leave a quotient within \<open>2 ^ - 50\<close>: numerator and quotient rounded to
  nearest, the denominator within \<open>2 ^ - 52\<close>.
\<close>

lemma quotient_error:
  fixes a A p P R :: rat
  assumes p: "0 < p"
    and ea: "\<bar>A - a\<bar> \<le> \<bar>a\<bar> / 2 ^ 53"
    and ep: "\<bar>P - p\<bar> \<le> p / 2 ^ 52"
    and er: "\<bar>R - A / P\<bar> \<le> \<bar>A / P\<bar> / 2 ^ 53"
  shows "\<bar>R - a / p\<bar> \<le> \<bar>a / p\<bar> / 2 ^ 50"
proof -
  have ea': "\<bar>A - a\<bar> \<le> \<bar>a\<bar> / 9007199254740992" using ea by simp
  have ep': "\<bar>P - p\<bar> \<le> p / 4503599627370496" using ep by simp
  have P: "0 < P" using p ep' by linarith
  have "\<bar>R - A / P\<bar> * P \<le> \<bar>A / P\<bar> / 2 ^ 53 * P"
    using er P by (simp only: mult_le_cancel_right_pos)
  moreover have "\<bar>R - A / P\<bar> * P = \<bar>R * P - A\<bar>"
  proof -
    have "\<bar>R - A / P\<bar> * P = \<bar>(R - A / P) * P\<bar>" using P by (simp add: abs_mult)
    also have "(R - A / P) * P = R * P - A" using P by (simp add: algebra_simps)
    finally show ?thesis .
  qed
  moreover have "\<bar>A / P\<bar> / 2 ^ 53 * P = \<bar>A\<bar> / 9007199254740992"
  proof -
    have "\<bar>A / P\<bar> = \<bar>A\<bar> / P" using P by (simp add: abs_divide)
    then show ?thesis using P by simp
  qed
  ultimately have erp: "\<bar>R * P - A\<bar> \<le> \<bar>A\<bar> / 9007199254740992" by (simp only:)
  have A: "\<bar>A\<bar> \<le> \<bar>a\<bar> + \<bar>a\<bar> / 9007199254740992" using ea' by linarith
  have RP: "\<bar>R\<bar> * P \<le> \<bar>A\<bar> + \<bar>A\<bar> / 9007199254740992"
  proof -
    have "\<bar>R\<bar> * P = \<bar>R * P\<bar>" using P by (simp add: abs_mult)
    then show ?thesis using erp by linarith
  qed
  have pP: "p - p / 4503599627370496 \<le> P" using ep' by linarith
  have R0: "0 \<le> \<bar>R\<bar>" by simp
  have "\<bar>R\<bar> * (p - p / 4503599627370496) \<le> \<bar>R\<bar> * P" using pP R0 by (rule mult_left_mono)
  then have T1: "\<bar>R\<bar> * p - \<bar>R\<bar> * p / 4503599627370496 \<le> \<bar>R\<bar> * P"
    by (simp add: algebra_simps)
  have "\<bar>p - P\<bar> \<le> p / 4503599627370496" using ep' by linarith
  then have "\<bar>R\<bar> * \<bar>p - P\<bar> \<le> \<bar>R\<bar> * (p / 4503599627370496)"
    using R0 by (rule mult_left_mono)
  then have T2: "\<bar>R\<bar> * \<bar>p - P\<bar> \<le> \<bar>R\<bar> * p / 4503599627370496" by simp
  have "R * p - a = R * (p - P) + (R * P - A) + (A - a)" by (simp add: algebra_simps)
  then have "\<bar>R * p - a\<bar> \<le> \<bar>R * (p - P)\<bar> + \<bar>R * P - A\<bar> + \<bar>A - a\<bar>" by linarith
  moreover have "\<bar>R * (p - P)\<bar> = \<bar>R\<bar> * \<bar>p - P\<bar>" by (rule abs_mult)
  ultimately have "\<bar>R * p - a\<bar> \<le>
      \<bar>R\<bar> * p / 4503599627370496 + \<bar>A\<bar> / 9007199254740992 + \<bar>a\<bar> / 9007199254740992"
    using T2 erp ea' by linarith
  then have main: "\<bar>R * p - a\<bar> \<le> \<bar>a\<bar> / 1125899906842624" using T1 RP A by linarith
  have "\<bar>R - a / p\<bar> * p = \<bar>(R - a / p) * p\<bar>" using p by (simp add: abs_mult)
  also have "(R - a / p) * p = R * p - a" using p by (simp add: algebra_simps)
  finally have "\<bar>R - a / p\<bar> * p \<le> \<bar>a\<bar> / 1125899906842624" using main by simp
  moreover have "\<bar>a / p\<bar> / 2 ^ 50 * p = \<bar>a\<bar> / 1125899906842624"
  proof -
    have "\<bar>a / p\<bar> = \<bar>a\<bar> / p" using p by (simp add: abs_divide)
    then show ?thesis using p by simp
  qed
  ultimately have "\<bar>R - a / p\<bar> * p \<le> \<bar>a / p\<bar> / 2 ^ 50 * p" by (simp only:)
  then show ?thesis using p by (simp only: mult_le_cancel_right_pos)
qed

text \<open>\<open>Number(a)\<close> for a signed 256-bit \<open>a\<close> other than zero.\<close>

lemma number_of_bigint:
  fixes a :: int
  assumes "a \<noteq> 0" "\<bar>a\<bar> \<le> 2 ^ 255"
  shows "\<exists>A. Number_of_bigint a = Finite A \<and> \<bar>A - of_int a\<bar> \<le> \<bar>of_int a\<bar> / 2 ^ 53 \<and>
           1 \<le> \<bar>A\<bar> \<and> \<bar>A\<bar> \<le> pow2 256 \<and> (0 < a \<longrightarrow> 0 < A) \<and> (a < 0 \<longrightarrow> A < 0)"
proof -
  let ?a = "of_int a :: rat"
  have "1 \<le> \<bar>a\<bar>" using assms(1) by simp
  then have "(1 :: rat) \<le> of_int \<bar>a\<bar>" by (simp only: of_int_1_le_iff)
  then have a1: "pow2 0 \<le> \<bar>?a\<bar>" by (simp add: pow2_0)
  have "(of_int \<bar>a\<bar> :: rat) \<le> of_int (2 ^ 255)" using assms(2) by (simp only: of_int_le_iff)
  then have "\<bar>?a\<bar> \<le> 2 ^ 255" by simp
  also have "(2 :: rat) ^ 255 < pow2 256" by (simp add: pow2_numeral)
  finally have a2: "\<bar>?a\<bar> < pow2 256" .
  obtain A where A: "fl ?a = Finite A" "\<bar>A - ?a\<bar> \<le> \<bar>?a\<bar> / 2 ^ 53" "pow2 0 \<le> \<bar>A\<bar>"
      "\<bar>A\<bar> \<le> pow2 256" "0 < ?a \<longrightarrow> 0 < A" "?a < 0 \<longrightarrow> A < 0"
    using fl_normal [OF a1 a2] by auto
  then show ?thesis by (auto simp: Number_of_bigint_def pow2_0)
qed

text \<open>The price has the sign of the answer whenever the power of ten is positive and finite.\<close>

lemma price_sign:
  fixes a :: int and P :: rat
  assumes "\<bar>a\<bar> \<le> 2 ^ 255" "0 < P" "P < 2 ^ 1024"
  shows "(a < 0 \<longrightarrow> js_lt (js_div (Number_of_bigint a) (Finite P)) (Finite 0)) \<and>
         (0 < a \<longrightarrow> js_lt (Finite 0) (js_div (Number_of_bigint a) (Finite P))) \<and>
         (a = 0 \<longrightarrow> js_div (Number_of_bigint a) (Finite P) = Finite 0)"
proof (cases "a = 0")
  case True
  then show ?thesis using assms(2) by (simp add: Number_of_bigint_def fl_0)
next
  case False
  obtain A where A: "Number_of_bigint a = Finite A" "1 \<le> \<bar>A\<bar>" "0 < a \<longrightarrow> 0 < A"
      "a < 0 \<longrightarrow> A < 0"
    using number_of_bigint [OF False assms(1)] by blast
  have d: "js_div (Number_of_bigint a) (Finite P) = fl (A / P)"
    using A(1) assms(2) by simp
  have small: "pow2 (- 1074) \<le> 1 / P"
  proof -
    have "pow2 (- 1074) \<le> pow2 (- 1024)" by (intro pow2_mono) simp
    also have "pow2 (- 1024) = 1 / 2 ^ 1024" by (simp add: pow2_def)
    also have "\<dots> \<le> 1 / P" using assms(2,3) by (intro frac_le) simp_all
    finally show ?thesis .
  qed
  have neg: "js_lt (fl (A / P)) (Finite 0)" if "a < 0"
  proof -
    have "A \<le> - 1" using that A(2,4) by linarith
    then have "A / P \<le> - 1 / P" using assms(2) by (intro divide_right_mono) simp_all
    then have "A / P \<le> - pow2 (- 1074)" using small by simp
    then show ?thesis by (rule fl_negative)
  qed
  have pos: "js_lt (Finite 0) (fl (A / P))" if "0 < a"
  proof -
    have "1 \<le> A" using that A(2,3) by linarith
    then have "1 / P \<le> A / P" using assms(2) by (intro divide_right_mono) simp_all
    then have "pow2 (- 1074) \<le> A / P" using small by simp
    then show ?thesis by (rule fl_positive)
  qed
  show ?thesis using False neg pos by (simp add: d)
qed

text \<open>
  With a power of ten within \<open>2 ^ - 52\<close> of the true one, the price is finite and
  within \<open>2 ^ - 50\<close> of the exact quotient, relatively.
\<close>

lemma price_close:
  fixes a :: int and d :: nat and P :: rat
  assumes "\<bar>a\<bar> \<le> 2 ^ 255" "d < 256" "\<bar>P - 10 ^ d\<bar> \<le> 10 ^ d / 2 ^ 52"
  shows "\<exists>p. js_div (Number_of_bigint a) (Finite P) = Finite p \<and>
           \<bar>p - of_int a / 10 ^ d\<bar> \<le> \<bar>of_int a / 10 ^ d\<bar> / 2 ^ 50"
proof -
  let ?p = "(10 :: rat) ^ d"
  have p1: "1 \<le> ?p" by simp
  have p2: "?p < pow2 848" by (rule pow10_bound [OF assms(2)])
  have ep: "\<bar>P - ?p\<bar> \<le> ?p / 4503599627370496" using assms(3) by simp
  have Plo: "1 / 2 \<le> P" using ep p1 by linarith
  have Phi: "P \<le> pow2 849"
  proof -
    have "P \<le> 2 * ?p" using ep p1 by linarith
    also have "\<dots> \<le> 2 * pow2 848" using p2 by simp
    also have "\<dots> = pow2 849" by (simp add: pow2_numeral)
    finally show ?thesis .
  qed
  have P0: "0 < P" using Plo by linarith
  show ?thesis
  proof (cases "a = 0")
    case True
    then show ?thesis using P0 by (simp add: Number_of_bigint_def fl_0)
  next
    case False
    let ?a = "of_int a :: rat"
    obtain A where A: "Number_of_bigint a = Finite A" "\<bar>A - ?a\<bar> \<le> \<bar>?a\<bar> / 2 ^ 53"
        "1 \<le> \<bar>A\<bar>" "\<bar>A\<bar> \<le> pow2 256"
      using number_of_bigint [OF False assms(1)] by blast
    let ?Q = "A / P"
    have absQ: "\<bar>?Q\<bar> = \<bar>A\<bar> / P" using P0 by (simp add: abs_divide)
    have m849: "pow2 (- 849) = 1 / pow2 849" using pow2_diff [of 0 849] by (simp add: pow2_0)
    have "1 / pow2 849 \<le> \<bar>A\<bar> / P"
      using A(3) Phi P0 by (intro frac_le) simp_all
    then have q1: "pow2 (- 849) \<le> \<bar>?Q\<bar>" by (simp only: absQ m849)
    have "\<bar>A\<bar> / P \<le> pow2 256 / (1 / 2)"
      using A(4) Plo by (intro frac_le) simp_all
    also have "pow2 256 / (1 / 2) < pow2 258" by (simp add: pow2_numeral)
    finally have q2: "\<bar>?Q\<bar> < pow2 258" by (simp only: absQ)
    obtain R where R: "fl ?Q = Finite R" "\<bar>R - ?Q\<bar> \<le> \<bar>?Q\<bar> / 2 ^ 53"
      using fl_normal [OF q1 q2] by auto
    have price: "js_div (Number_of_bigint a) (Finite P) = Finite R"
      using A(1) P0 R(1) by simp
    have err: "\<bar>R - ?a / ?p\<bar> \<le> \<bar>?a / ?p\<bar> / 2 ^ 50"
      using assms(3) by (intro quotient_error [of ?p A ?a P R] A(2) R(2)) simp_all
    show ?thesis using price err by blast
  qed
qed

lemma price_main_eq:
  "price (health_main env config decimals rd) =
     js_div (Number_of_bigint (sint (answer rd)))
       (Math_pow10 (exponentiate10 env) (unat decimals))"
  by (simp add: health_main_def Let_def)

section \<open>Validation\<close>

text \<open>Validation.\<close>

lemma z_object_Inr:
  "z_object (Inr s) (Inr a) (Inr n) (Inr t) (Inr c) (Inr b) =
     Inr \<lparr>schedule = s, feedAddress = a, feedName = n, stalenessThresholdMinutes = t,
          chainSelectorName = c, isTestnet = b\<rparr>"
  by (simp add: z_object_def)

lemma z_object_Inl:
  assumes "issues_of p1 @ issues_of p2 @ issues_of p3 @ issues_of p4 @ issues_of p5 @ issues_of p6 \<noteq> []"
  shows "z_object p1 p2 p3 p4 p5 p6 =
     Inl (ZodError (issues_of p1 @ issues_of p2 @ issues_of p3 @ issues_of p4 @
                    issues_of p5 @ issues_of p6))"
  using assms by (cases p1; cases p2; cases p3; cases p4; cases p5; cases p6) (simp_all add: z_object_def)

lemma z_object_Inr_iff:
  "z_object p1 p2 p3 p4 p5 p6 = Inr c \<longleftrightarrow>
     p1 = Inr (schedule c) \<and> p2 = Inr (feedAddress c) \<and> p3 = Inr (feedName c) \<and>
     p4 = Inr (stalenessThresholdMinutes c) \<and> p5 = Inr (chainSelectorName c) \<and>
     p6 = Inr (isTestnet c)"
  by (cases p1; cases p2; cases p3; cases p4; cases p5; cases p6; cases c) (auto simp: z_object_def)

lemma z_string_Inr_iff: "z_string key v = Inr s \<longleftrightarrow> v = JString s"
  by (cases v) simp_all

lemma z_string_regex_Inr_iff: "z_string_regex re msg key v = Inr s \<longleftrightarrow> v = JString s \<and> re s"
  by (cases v) auto

lemma z_number_positive_Inr_iff:
  "z_number_positive msg key v = Inr n \<longleftrightarrow> v = JNumber n \<and> js_lt (Finite 0) n"
proof (cases v)
  case (JNumber m)
  then show ?thesis by (cases m) auto
qed simp_all

lemma z_boolean_Inr_iff: "z_boolean key v = Inr b \<longleftrightarrow> v = JBoolean b"
  by (cases v) simp_all

lemma configSchema_main_Inr_iff:
  "configSchema_main raw = Inr c \<longleftrightarrow>
     raw ''schedule'' = JString (schedule c) \<and>
     raw ''feedAddress'' = JString (feedAddress c) \<and> address_regex (feedAddress c) \<and>
     raw ''feedName'' = JString (feedName c) \<and>
     raw ''stalenessThresholdMinutes'' = JNumber (stalenessThresholdMinutes c) \<and>
     js_lt (Finite 0) (stalenessThresholdMinutes c) \<and>
     raw ''chainSelectorName'' = JString (chainSelectorName c) \<and>
     raw ''isTestnet'' = JBoolean (isTestnet c)"
  unfolding configSchema_main_def z_object_Inr_iff z_string_Inr_iff z_string_regex_Inr_iff
    z_number_positive_Inr_iff z_boolean_Inr_iff by blast

lemma configSchema_part_Inr_iff:
  "configSchema_part raw = Inr c \<longleftrightarrow>
     raw ''schedule'' = JString (schedule c) \<and>
     raw ''feedAddress'' = JString (feedAddress c) \<and> address_regex (feedAddress c) \<and>
     raw ''feedName'' = JString (feedName c) \<and>
     raw ''stalenessThresholdMinutes'' = JNumber (stalenessThresholdMinutes c) \<and>
     js_lt (Finite 0) (stalenessThresholdMinutes c) \<and>
     raw ''chainSelectorName'' = JString (chainSelectorName c) \<and>
     raw ''isTestnet'' = JBoolean (isTestnet c)"
  unfolding configSchema_part_def z_object_Inr_iff z_string_Inr_iff z_string_regex_Inr_iff
    z_number_positive_Inr_iff z_boolean_Inr_iff by blast

lemma configSchema_same: "configSchema_main raw = Inr c \<longleftrightarrow> configSchema_part raw = Inr c"
  by (simp only: configSchema_main_Inr_iff configSchema_part_Inr_iff)

lemma z_object_cases:
  "(\<exists>c. z_object p1 p2 p3 p4 p5 p6 = Inr c) \<or>
   z_object p1 p2 p3 p4 p5 p6 =
     Inl (ZodError (issues_of p1 @ issues_of p2 @ issues_of p3 @ issues_of p4 @
                    issues_of p5 @ issues_of p6))"
  by (cases p1; cases p2; cases p3; cases p4; cases p5; cases p6) (simp_all add: z_object_def)

lemma z_string_regex_reject:
  "(\<forall>a. v = JString a \<longrightarrow> \<not> re a) \<Longrightarrow> \<exists>c. z_string_regex re msg key v = Inl [Issue key c (if c = invalid_string then msg else None)]"
  by (cases v) auto

lemma z_number_positive_reject:
  "(\<forall>t. v = JNumber t \<longrightarrow> \<not> js_lt (Finite 0) t) \<Longrightarrow>
     \<exists>c. z_number_positive msg key v = Inl [Issue key c (if c = too_small then msg else None)]"
proof (cases v)
  case (JNumber m)
  assume "\<forall>t. v = JNumber t \<longrightarrow> \<not> js_lt (Finite 0) t"
  with JNumber show ?thesis by (cases m) auto
qed auto

lemma z_object_reject:
  assumes "(\<exists>i. p2 = Inl i) \<or> (\<exists>i. p4 = Inl i)"
  shows "z_object p1 p2 p3 p4 p5 p6 =
     Inl (ZodError (issues_of p1 @ issues_of p2 @ issues_of p3 @ issues_of p4 @
                    issues_of p5 @ issues_of p6))"
  using assms by (cases p1; cases p2; cases p3; cases p4; cases p5; cases p6) (auto simp: z_object_def)

lemma z_object_reject_fields:
  assumes "A \<or> T"
    and "A \<Longrightarrow> \<exists>c m. p2 = Inl [Issue ''feedAddress'' c m]"
    and "T \<Longrightarrow> \<exists>c m. p4 = Inl [Issue ''stalenessThresholdMinutes'' c m]"
  shows "\<exists>is. z_object p1 p2 p3 p4 p5 p6 = Inl (ZodError is) \<and>
           (A \<longrightarrow> ''feedAddress'' \<in> path ` set is) \<and>
           (T \<longrightarrow> ''stalenessThresholdMinutes'' \<in> path ` set is)"
proof -
  let ?is = "issues_of p1 @ issues_of p2 @ issues_of p3 @ issues_of p4 @ issues_of p5 @ issues_of p6"
  have "(\<exists>i. p2 = Inl i) \<or> (\<exists>i. p4 = Inl i)" using assms by blast
  then have z: "z_object p1 p2 p3 p4 p5 p6 = Inl (ZodError ?is)" by (rule z_object_reject)
  have a: "''feedAddress'' \<in> path ` set ?is" if hA: A
  proof -
    obtain c m where "p2 = Inl [Issue ''feedAddress'' c m]" using assms(2) [OF hA] by blast
    then show ?thesis by simp
  qed
  have t: "''stalenessThresholdMinutes'' \<in> path ` set ?is" if hT: T
  proof -
    obtain c m where "p4 = Inl [Issue ''stalenessThresholdMinutes'' c m]"
      using assms(3) [OF hT] by blast
    then show ?thesis by simp
  qed
  show ?thesis using z a t by blast
qed

lemma configSchema_reject:
  assumes "(\<forall>a. raw ''feedAddress'' = JString a \<longrightarrow> \<not> address_regex a) \<or>
           (\<forall>t. raw ''stalenessThresholdMinutes'' = JNumber t \<longrightarrow> \<not> js_lt (Finite 0) t)"
  shows "\<exists>is. configSchema_main raw = Inl (ZodError is) \<and>
           ((\<forall>a. raw ''feedAddress'' = JString a \<longrightarrow> \<not> address_regex a) \<longrightarrow>
              ''feedAddress'' \<in> path ` set is) \<and>
           ((\<forall>t. raw ''stalenessThresholdMinutes'' = JNumber t \<longrightarrow> \<not> js_lt (Finite 0) t) \<longrightarrow>
              ''stalenessThresholdMinutes'' \<in> path ` set is)"
    and "\<exists>is. configSchema_part raw = Inl (ZodError is) \<and>
           ((\<forall>a. raw ''feedAddress'' = JString a \<longrightarrow> \<not> address_regex a) \<longrightarrow>
              ''feedAddress'' \<in> path ` set is) \<and>
           ((\<forall>t. raw ''stalenessThresholdMinutes'' = JNumber t \<longrightarrow> \<not> js_lt (Finite 0) t) \<longrightarrow>
              ''stalenessThresholdMinutes'' \<in> path ` set is)"
proof -
  let ?A = "\<forall>a. raw ''feedAddress'' = JString a \<longrightarrow> \<not> address_regex a"
  let ?T = "\<forall>t. raw ''stalenessThresholdMinutes'' = JNumber t \<longrightarrow> \<not> js_lt (Finite 0) t"
  have a: "\<exists>c m. z_string_regex address_regex msg ''feedAddress'' (raw ''feedAddress'') =
             Inl [Issue ''feedAddress'' c m]" if ?A for msg
    using z_string_regex_reject [OF that, of msg "''feedAddress''"] by blast
  have t: "\<exists>c m. z_number_positive msg ''stalenessThresholdMinutes''
             (raw ''stalenessThresholdMinutes'') = Inl [Issue ''stalenessThresholdMinutes'' c m]"
    if ?T for msg
    using z_number_positive_reject [OF that, of msg "''stalenessThresholdMinutes''"] by blast
  show "\<exists>is. configSchema_main raw = Inl (ZodError is) \<and>
           (?A \<longrightarrow> ''feedAddress'' \<in> path ` set is) \<and>
           (?T \<longrightarrow> ''stalenessThresholdMinutes'' \<in> path ` set is)"
    unfolding configSchema_main_def by (rule z_object_reject_fields [OF assms a t])
  show "\<exists>is. configSchema_part raw = Inl (ZodError is) \<and>
           (?A \<longrightarrow> ''feedAddress'' \<in> path ` set is) \<and>
           (?T \<longrightarrow> ''stalenessThresholdMinutes'' \<in> path ` set is)"
    unfolding configSchema_part_def by (rule z_object_reject_fields [OF assms a t])
qed

section \<open>Traces and results of the stages\<close>

lemma calls_append: "calls (xs @ ys) = calls xs @ calls ys"
  by (induction xs rule: calls.induct) simp_all

lemma logs_append: "logs (xs @ ys) = logs xs @ logs ys"
  by (induction xs rule: logs.induct) simp_all

lemma snd_bind: "snd (bind m f) = (case snd m of Inl e \<Rightarrow> Inl e | Inr x \<Rightarrow> snd (f x))"
  by (simp add: bind_def split: prod.splits sum.splits)

lemma fst_bind: "fst (bind m f) = fst m @ (case snd m of Inl e \<Rightarrow> [] | Inr x \<Rightarrow> fst (f x))"
  by (simp add: bind_def split: prod.splits sum.splits)

lemma snd_seq: "snd (seq m k) = (case snd m of Inl e \<Rightarrow> Inl e | Inr x \<Rightarrow> snd k)"
  by (simp add: seq_def snd_bind)

lemma fst_seq: "fst (seq m k) = fst m @ (case snd m of Inl e \<Rightarrow> [] | Inr x \<Rightarrow> fst k)"
  by (simp add: seq_def fst_bind)

lemma run_simps:
  "fst (ok x) = []" "snd (ok x) = Inr x"
  "fst (throw e) = []" "snd (throw e) = Inl e"
  "fst (runtime_log s) = [Log s]" "snd (runtime_log s) = Inr ()"
  "fst (callContract_start r) = [CallContract r]" "snd (callContract_start r) = Inr r"
  by (simp_all add: ok_def throw_def runtime_log_def callContract_start_def)

lemma fst_result: "fst (result env p) = []"
  by (simp add: result_def run_simps split: sum.splits)

lemma snd_result:
  "snd (result env p) = (case callContract env p of Inl m \<Rightarrow> Inl (CallFailed m) | Inr d \<Rightarrow> Inr d)"
  by (simp add: result_def run_simps split: sum.splits)

lemma fst_decode: "fst (decodeFunctionResult dec d) = []"
  by (simp add: decodeFunctionResult_def run_simps split: sum.splits)

lemma snd_decode:
  "snd (decodeFunctionResult dec d) = (case dec d of Inl m \<Rightarrow> Inl (DecodeFailed m) | Inr v \<Rightarrow> Inr v)"
  by (simp add: decodeFunctionResult_def run_simps split: sum.splits)

lemma fst_toISOString: "fst (toISOString env d) = []"
  by (simp add: toISOString_def run_simps split: number.splits)

lemma snd_toISOString:
  "snd (toISOString env d) = (case d of Finite v \<Rightarrow> Inr (isoString env v) | _ \<Rightarrow> Inl RangeError)"
  by (simp add: toISOString_def run_simps split: number.splits)

lemmas run_eval = snd_bind fst_bind snd_seq fst_seq run_simps fst_result snd_result
  fst_decode snd_decode fst_toISOString snd_toISOString

lemma dispatch_main_eq:
  "dispatch_main env config selector =
     ([Log ''[Step 1] Preparing EVM calls...'',
       CallContract (feed_request env config selector ''description''),
       CallContract (feed_request env config selector ''decimals''),
       CallContract (feed_request env config selector ''latestRoundData'')],
      Inr (feed_request env config selector ''description'',
           feed_request env config selector ''decimals'',
           feed_request env config selector ''latestRoundData''))"
  by (simp add: dispatch_main_def feed_request_def Let_def bind_def seq_def ok_def
      runtime_log_def callContract_start_def)

lemma dispatch_part_eq:
  "dispatch_part env config selector =
     ([CallContract (feed_request env config selector ''description''),
       CallContract (feed_request env config selector ''decimals''),
       CallContract (feed_request env config selector ''latestRoundData'')],
      Inr (feed_request env config selector ''description'',
           feed_request env config selector ''decimals'',
           feed_request env config selector ''latestRoundData''))"
  by (simp add: dispatch_part_def feed_request_def Let_def bind_def ok_def callContract_start_def)

lemma calls_read_main: "calls (fst (read_main env p1 p2 p3)) = []"
  by (simp add: read_main_def run_eval calls_append split: sum.splits)

lemma calls_read_part: "calls (fst (read_part env p1 p2 p3)) = []"
  by (simp add: read_part_def run_eval calls_append split: sum.splits)

lemma calls_report_main: "calls (fst (report_main env config d rd h)) = []"
  by (simp add: report_main_def run_eval calls_append split: sum.splits number.splits)

lemma calls_report_part: "calls (fst (report_part env config d rd h)) = []"
  by (simp add: report_part_def run_eval calls_append split: sum.splits number.splits)

lemma calls_network_main: "calls (fst (network_main env config)) = []"
  by (simp add: network_main_def run_eval calls_append split: option.splits)

lemma calls_network_part: "calls (fst (network_part env config)) = []"
  by (simp add: network_part_def run_eval calls_append split: option.splits)

lemma snd_network_main:
  "snd (network_main env config) =
     (case getNetwork env ''evm'' (chainSelectorName config) (isTestnet config) of
        None \<Rightarrow> Inl (NetworkNotFound (chainSelectorName config)) | Some s \<Rightarrow> Inr s)"
  by (simp add: network_main_def run_eval split: option.splits)

lemma snd_network_part:
  "snd (network_part env config) =
     (case getNetwork env ''evm'' (chainSelectorName config) (isTestnet config) of
        None \<Rightarrow> Inl (NetworkNotFound (chainSelectorName config)) | Some s \<Rightarrow> Inr s)"
  by (simp add: network_part_def run_eval split: option.splits)

lemma fst_network_main:
  "fst (network_main env config) =
     [Log rule_line, Log (''Feed Health Monitor: '' @ feedName config), Log rule_line]"
  by (simp add: network_main_def run_eval split: option.splits)

lemma fst_network_part:
  "fst (network_part env config) = [Log (''Feed Health Monitor: '' @ feedName config)]"
  by (simp add: network_part_def run_eval split: option.splits)

lemma calls_catch_main: "calls (fst (catch_main env m)) = calls (fst m)"
  by (simp add: catch_main_def calls_append split: prod.splits sum.splits)

lemma snd_catch_main: "snd (catch_main env m) = snd m"
  by (simp add: catch_main_def split: prod.splits sum.splits)

lemma snd_read_main:
  "snd (read_main env p1 p2 p3) =
     (case callContract env p1 of Inl m \<Rightarrow> Inl (CallFailed m) | Inr d1 \<Rightarrow>
      case callContract env p2 of Inl m \<Rightarrow> Inl (CallFailed m) | Inr d2 \<Rightarrow>
      case callContract env p3 of Inl m \<Rightarrow> Inl (CallFailed m) | Inr d3 \<Rightarrow>
      case decodeDescription env d1 of Inl m \<Rightarrow> Inl (DecodeFailed m) | Inr description \<Rightarrow>
      case decodeDecimals env d2 of Inl m \<Rightarrow> Inl (DecodeFailed m) | Inr decimals \<Rightarrow>
      case decodeLatestRoundData env d3 of Inl m \<Rightarrow> Inl (DecodeFailed m) | Inr rd \<Rightarrow>
      Inr (description, decimals, rd))"
  by (simp add: read_main_def run_eval split: sum.splits)

lemma snd_read_part:
  "snd (read_part env p1 p2 p3) =
     (case callContract env p1 of Inl m \<Rightarrow> Inl (CallFailed m) | Inr d1 \<Rightarrow>
      case decodeDescription env d1 of Inl m \<Rightarrow> Inl (DecodeFailed m) | Inr description \<Rightarrow>
      case callContract env p2 of Inl m \<Rightarrow> Inl (CallFailed m) | Inr d2 \<Rightarrow>
      case decodeDecimals env d2 of Inl m \<Rightarrow> Inl (DecodeFailed m) | Inr decimals \<Rightarrow>
      case callContract env p3 of Inl m \<Rightarrow> Inl (CallFailed m) | Inr d3 \<Rightarrow>
      case decodeLatestRoundData env d3 of Inl m \<Rightarrow> Inl (DecodeFailed m) | Inr rd \<Rightarrow>
      Inr (description, decimals, rd))"
  by (simp add: read_part_def run_eval split: sum.splits)

lemma fst_read_part: "fst (read_part env p1 p2 p3) = []"
  by (simp add: read_part_def run_eval split: sum.splits)

lemma fst_read_main:
  "fst (read_main env p1 p2 p3) =
     Log ''[Step 2] Executing parallel EVM calls...'' #
     (case callContract env p1 of Inl m \<Rightarrow> [] | Inr d1 \<Rightarrow>
      case callContract env p2 of Inl m \<Rightarrow> [] | Inr d2 \<Rightarrow>
      case callContract env p3 of Inl m \<Rightarrow> [] | Inr d3 \<Rightarrow>
      case decodeDescription env d1 of Inl m \<Rightarrow> [] | Inr description \<Rightarrow>
        Log (''  Feed: '' @ description) #
        (case decodeDecimals env d2 of Inl m \<Rightarrow> [] | Inr decimals \<Rightarrow>
           [Log (''  Decimals: '' @ digits (unat decimals))]))"
  by (simp add: read_main_def run_eval split: sum.splits)

text \<open>Both files read the three results; a failed call leaves no triple.\<close>

lemma read_main_call_failed:
  assumes "callContract env p1 = Inl m1 \<or> callContract env p2 = Inl m2 \<or> callContract env p3 = Inl m3"
  shows "\<exists>m. read_main env p1 p2 p3 =
           ([Log ''[Step 2] Executing parallel EVM calls...''], Inl (CallFailed m))"
proof -
  have "\<exists>m. snd (read_main env p1 p2 p3) = Inl (CallFailed m)"
    using assms by (auto simp: snd_read_main split: sum.splits)
  moreover have "fst (read_main env p1 p2 p3) = [Log ''[Step 2] Executing parallel EVM calls...'']"
    using assms by (auto simp: fst_read_main split: sum.splits)
  ultimately show ?thesis by (metis prod.collapse)
qed

lemma read_part_call_failed:
  assumes "callContract env p1 = Inl m1 \<or> callContract env p2 = Inl m2 \<or> callContract env p3 = Inl m3"
  shows "\<exists>e. read_part env p1 p2 p3 = ([], Inl e)"
proof -
  have "\<exists>e. snd (read_part env p1 p2 p3) = Inl e"
    using assms by (auto simp: snd_read_part split: sum.splits)
  then show ?thesis using fst_read_part [of env p1 p2 p3] by (metis prod.collapse)
qed

lemma read_same:
  "snd (read_main env p1 p2 p3) = Inr t \<longleftrightarrow> snd (read_part env p1 p2 p3) = Inr t"
  by (auto simp: snd_read_main snd_read_part split: sum.splits)

lemma snd_report_part:
  "snd (report_part env config d rd h) =
     (case updatedAtDate h of
        Finite v \<Rightarrow> Inr (summary_part env config h)
      | _ \<Rightarrow> Inl RangeError)"
  by (simp add: report_part_def run_eval split: number.splits)

lemma snd_report_main:
  "snd (report_main env config d rd h) =
     (case updatedAtDate h of
        Finite v \<Rightarrow> Inr (summary_main env config h)
      | _ \<Rightarrow> Inl RangeError)"
  by (simp add: report_main_def run_eval split: number.splits)

lemma fst_report_part:
  "fst (report_part env config d rd h) =
     [Log (''Feed:      '' @ d),
      Log (''Price:     $'' @ toFixed (numberToString env) 2 (price h)),
      Log (''Round ID:  '' @ bigint_toString (uint (roundId rd)))] @
     (case updatedAtDate h of
        Finite v \<Rightarrow>
          [Log (''Updated:   '' @ isoString env v),
           Log (''Staleness: '' @ toFixed (numberToString env) 1 (stalenessMinutes h) @ '' minutes''),
           Log (''Status:    '' @ status h)]
      | _ \<Rightarrow> [])"
  by (simp add: report_part_def run_eval split: number.splits)

lemma fst_report_main:
  "fst (report_main env config d rd h) =
     [Log rule_line,
      Log (''  Feed:      '' @ d),
      Log (''  Price:     $'' @ toFixed (numberToString env) 2 (price h)),
      Log (''  Round ID:  '' @ bigint_toString (uint (roundId rd)))] @
     (case updatedAtDate h of
        Finite v \<Rightarrow>
          [Log (''  Updated:   '' @ isoString env v),
           Log (''  Staleness: '' @ toFixed (numberToString env) 1 (stalenessMinutes h) @ '' minutes''),
           Log (''  Status:    '' @ status h),
           Log rule_line,
           Log (summary_main env config h)]
      | _ \<Rightarrow> [])"
  by (simp add: report_main_def run_eval split: number.splits)

lemma health_same: "health_main env config decimals rd = health_part env config decimals rd"
  by (simp add: health_main_def health_part_def Let_def getTime_def status_same)

lemma health_invalid_date:
  assumes "8640000000000 < uint (updatedAt rd)"
  shows "updatedAtDate (health_main env config decimals rd) = NaN"
    and "status (health_main env config decimals rd) = ''FAIL''"
    and "updatedAtDate (health_part env config decimals rd) = NaN"
    and "status (health_part env config decimals rd) = ''FAIL''"
  using date_invalid [OF assms]
  by (simp_all add: health_main_def health_part_def Let_def getTime_def status_main_def
      status_part_def)

section \<open>Whole evaluations\<close>

text \<open>The whole evaluation of part_000, stage by stage.\<close>

lemma assess_part_eq:
  "assess_part env raw =
     (case configSchema_part raw of
        Inl e \<Rightarrow> ([], Inl e)
      | Inr config \<Rightarrow>
          (case getNetwork env ''evm'' (chainSelectorName config) (isTestnet config) of
             None \<Rightarrow>
               ([Log (''Feed Health Monitor: '' @ feedName config)],
                Inl (NetworkNotFound (chainSelectorName config)))
           | Some selector \<Rightarrow>
               (let sent =
                      [Log (''Feed Health Monitor: '' @ feedName config),
                       CallContract (feed_request env config selector ''description''),
                       CallContract (feed_request env config selector ''decimals''),
                       CallContract (feed_request env config selector ''latestRoundData'')]
                in case snd (read_part env (feed_request env config selector ''description'')
                               (feed_request env config selector ''decimals'')
                               (feed_request env config selector ''latestRoundData'')) of
                     Inl e \<Rightarrow> (sent, Inl e)
                   | Inr (description, decimals, rd) \<Rightarrow>
                       (sent @ fst (report_part env config description rd
                                      (health_part env config decimals rd)),
                        case updatedAtDate (health_part env config decimals rd) of
                          Finite v \<Rightarrow>
                            Inr (health_part env config decimals rd,
                                 summary_part env config (health_part env config decimals rd))
                        | _ \<Rightarrow> Inl RangeError))))"
  by (simp add: prod_eq_iff assess_part_def fst_bind snd_bind run_simps dispatch_part_eq
      fst_network_part snd_network_part fst_read_part snd_report_part Let_def
      split: sum.splits option.splits prod.splits number.splits)

text \<open>The body of the \<open>try\<close> block of main.ts, stage by stage.\<close>

lemma try_main_eq:
  "try_main env raw =
     (case configSchema_main raw of
        Inl e \<Rightarrow> ([], Inl e)
      | Inr config \<Rightarrow>
          (let heading =
                 [Log rule_line, Log (''Feed Health Monitor: '' @ feedName config), Log rule_line]
           in case getNetwork env ''evm'' (chainSelectorName config) (isTestnet config) of
                None \<Rightarrow> (heading, Inl (NetworkNotFound (chainSelectorName config)))
              | Some selector \<Rightarrow>
                  (let sent =
                         heading @
                         [Log ''[Step 1] Preparing EVM calls...'',
                          CallContract (feed_request env config selector ''description''),
                          CallContract (feed_request env config selector ''decimals''),
                          CallContract (feed_request env config selector ''latestRoundData'')] @
                         fst (read_main env (feed_request env config selector ''description'')
                                (feed_request env config selector ''decimals'')
                                (feed_request env config selector ''latestRoundData''))
                   in case snd (read_main env (feed_request env config selector ''description'')
                                  (feed_request env config selector ''decimals'')
                                  (feed_request env config selector ''latestRoundData'')) of
                        Inl e \<Rightarrow> (sent, Inl e)
                      | Inr (description, decimals, rd) \<Rightarrow>
                          (sent @ fst (report_main env config description rd
                                         (health_main env config decimals rd)),
                           case updatedAtDate (health_main env config decimals rd) of
                             Finite v \<Rightarrow>
                               Inr (health_main env config decimals rd,
                                    summary_main env config (health_main env config decimals rd))
                           | _ \<Rightarrow> Inl RangeError))))"
  by (simp add: prod_eq_iff try_main_def fst_bind snd_bind run_simps dispatch_main_eq
      fst_network_main snd_network_main snd_report_main Let_def
      split: sum.splits option.splits prod.splits number.splits)

lemma snd_assess_main: "snd (assess_main env raw) = snd (try_main env raw)"
  by (simp add: assess_main_def snd_catch_main)

lemma assess_main_Inl:
  "try_main env raw = (es, Inl e) \<Longrightarrow>
     assess_main env raw = (es @ [Log (''ERROR: '' @ error_message env e)], Inl e)"
  by (simp add: assess_main_def catch_main_def)

lemma assess_main_Inr: "try_main env raw = (es, Inr x) \<Longrightarrow> assess_main env raw = (es, Inr x)"
  by (simp add: assess_main_def catch_main_def)

lemma fst_onCronTrigger_main: "fst (onCronTrigger_main env raw) = fst (assess_main env raw)"
  by (simp add: onCronTrigger_main_def fst_bind run_simps split: sum.splits prod.splits)

lemma fst_onCronTrigger_part: "fst (onCronTrigger_part env raw) = fst (assess_part env raw)"
  by (simp add: onCronTrigger_part_def fst_bind run_simps split: sum.splits prod.splits)

lemma snd_onCronTrigger_main:
  "snd (onCronTrigger_main env raw) =
     (case snd (assess_main env raw) of Inl e \<Rightarrow> Inl e | Inr (h, s) \<Rightarrow> Inr s)"
  by (simp add: onCronTrigger_main_def snd_bind run_simps split: sum.splits prod.splits)

lemma snd_onCronTrigger_part:
  "snd (onCronTrigger_part env raw) =
     (case snd (assess_part env raw) of Inl e \<Rightarrow> Inl e | Inr (h, s) \<Rightarrow> Inr s)"
  by (simp add: onCronTrigger_part_def snd_bind run_simps split: sum.splits prod.splits)

lemma onCronTrigger_part_eq:
  "onCronTrigger_part env raw =
     (fst (assess_part env raw),
      case snd (assess_part env raw) of Inl e \<Rightarrow> Inl e | Inr (h, s) \<Rightarrow> Inr s)"
  by (simp add: prod_eq_iff fst_onCronTrigger_part snd_onCronTrigger_part)

lemma onCronTrigger_main_eq:
  "onCronTrigger_main env raw =
     (fst (assess_main env raw),
      case snd (assess_main env raw) of Inl e \<Rightarrow> Inl e | Inr (h, s) \<Rightarrow> Inr s)"
  by (simp add: prod_eq_iff fst_onCronTrigger_main snd_onCronTrigger_main)

text \<open>The calls of a whole evaluation.\<close>

lemma calls_try_main:
  "calls (fst (try_main env raw)) =
     (case configSchema_main raw of
        Inl e \<Rightarrow> []
      | Inr config \<Rightarrow>
          (case getNetwork env ''evm'' (chainSelectorName config) (isTestnet config) of
             None \<Rightarrow> []
           | Some selector \<Rightarrow>
               [feed_request env config selector ''description'',
                feed_request env config selector ''decimals'',
                feed_request env config selector ''latestRoundData'']))"
  by (simp add: try_main_def fst_bind snd_bind calls_append calls_network_main snd_network_main
      dispatch_main_eq calls_read_main calls_report_main Let_def run_simps
      split: sum.splits option.splits prod.splits)

lemma calls_assess_part:
  "calls (fst (assess_part env raw)) =
     (case configSchema_part raw of
        Inl e \<Rightarrow> []
      | Inr config \<Rightarrow>
          (case getNetwork env ''evm'' (chainSelectorName config) (isTestnet config) of
             None \<Rightarrow> []
           | Some selector \<Rightarrow>
               [feed_request env config selector ''description'',
                feed_request env config selector ''decimals'',
                feed_request env config selector ''latestRoundData'']))"
  by (simp add: assess_part_def fst_bind snd_bind calls_append calls_network_part snd_network_part
      dispatch_part_eq calls_read_part calls_report_part Let_def run_simps
      split: sum.splits option.splits prod.splits)

lemma calls_onCronTrigger_main:
  "calls (fst (onCronTrigger_main env raw)) = calls (fst (try_main env raw))"
  by (simp add: fst_onCronTrigger_main assess_main_def calls_catch_main)

lemma calls_onCronTrigger_part:
  "calls (fst (onCronTrigger_part env raw)) = calls (fst (assess_part env raw))"
  by (simp add: fst_onCronTrigger_part)

text \<open>When an evaluation succeeds, and with what.\<close>

lemma assess_part_Inr_iff:
  "snd (assess_part env raw) = Inr (h, s) \<longleftrightarrow>
     (\<exists>config selector description decimals rd v.
        configSchema_part raw = Inr config \<and>
        getNetwork env ''evm'' (chainSelectorName config) (isTestnet config) = Some selector \<and>
        snd (read_part env (feed_request env config selector ''description'')
               (feed_request env config selector ''decimals'')
               (feed_request env config selector ''latestRoundData'')) =
          Inr (description, decimals, rd) \<and>
        h = health_part env config decimals rd \<and>
        updatedAtDate h = Finite v \<and>
        s = summary_part env config h)"
  by (auto simp: assess_part_eq Let_def split: sum.splits option.splits number.splits)

lemma assess_main_Inr_iff:
  "snd (assess_main env raw) = Inr (h, s) \<longleftrightarrow>
     (\<exists>config selector description decimals rd v.
        configSchema_main raw = Inr config \<and>
        getNetwork env ''evm'' (chainSelectorName config) (isTestnet config) = Some selector \<and>
        snd (read_main env (feed_request env config selector ''description'')
               (feed_request env config selector ''decimals'')
               (feed_request env config selector ''latestRoundData'')) =
          Inr (description, decimals, rd) \<and>
        h = health_main env config decimals rd \<and>
        updatedAtDate h = Finite v \<and>
        s = summary_main env config h)"
  by (auto simp: snd_assess_main try_main_eq Let_def split: sum.splits option.splits number.splits)

section \<open>The concrete evaluation\<close>

lemma example_parsed_main: "configSchema_main example_config = Inr example_parsed"
  by (simp add: configSchema_main_Inr_iff example_config_def example_parsed_def)

lemma example_parsed_part: "configSchema_part example_config = Inr example_parsed"
  by (simp add: configSchema_part_Inr_iff example_config_def example_parsed_def)

lemma example_network:
  "getNetwork example_env ''evm'' (chainSelectorName example_parsed) (isTestnet example_parsed) = Some 8453"
  by (simp add: example_env_def example_parsed_def)

lemma example_health_part:
  "health_part example_env example_parsed 8 example_round =
     \<lparr>price = Finite 2000, updatedAtDate = Finite 1700000000000,
      stalenessMinutes = Finite 5, status = ''OK''\<rparr>"
  by (simp add: health_part_def example_env_def example_parsed_def example_round_def Let_def
      Number_of_bigint_def Math_pow10_def fl_numeral Date_new_def TimeClip_def getTime_def
      status_part_def)

lemma example_health_main:
  "health_main example_env example_parsed 8 example_round = example_health"
  by (simp add: health_same example_health_part example_health_def)

lemma example_read_part:
  "snd (read_part example_env r1 r2 r3) = Inr (''ETH / USD'', 8, example_round)"
  by (simp add: snd_read_part example_env_def)

lemma example_summary_part:
  "summary_part example_env example_parsed example_health = ''ETH/USD: OK ($2000.00, 5.0m)''"
  by (simp add: summary_part_def example_health_def example_parsed_def example_env_def
      toFixed_def Let_def digits_numeral floor_numeral_div)

lemma example_summary_main:
  "summary_main example_env example_parsed example_health = ''ETH/USD: OK (2000.00, 5.0m stale)''"
  by (simp add: summary_main_def example_health_def example_parsed_def example_env_def
      toFixed_def Let_def digits_numeral floor_numeral_div)

lemma example_assess_part:
  "snd (assess_part example_env example_config) =
     Inr (example_health, ''ETH/USD: OK ($2000.00, 5.0m)'')"
proof -
  have "updatedAtDate example_health = Finite 1700000000000" by (simp add: example_health_def)
  then show ?thesis
    unfolding assess_part_Inr_iff
    using example_parsed_part example_network example_read_part example_health_part
      example_summary_part
    by (auto simp: example_health_def)
qed

lemma example_assess_main:
  "snd (assess_main example_env example_config) =
     Inr (example_health, ''ETH/USD: OK (2000.00, 5.0m stale)'')"
proof -
  have "updatedAtDate example_health = Finite 1700000000000" by (simp add: example_health_def)
  moreover have "snd (read_main example_env r1 r2 r3) = Inr (''ETH / USD'', 8, example_round)"
    for r1 r2 r3
    using example_read_part [of r1 r2 r3] by (simp add: read_same)
  ultimately show ?thesis
    unfolding assess_main_Inr_iff
    using example_parsed_main example_network example_health_main example_summary_main
    by auto
qed

text \<open>The evaluation with the threshold \<open>1.7\<close>.\<close>

lemma tight_parsed_main: "configSchema_main tight_config = Inr tight_parsed"
  by (simp add: configSchema_main_Inr_iff tight_config_def tight_parsed_def example_config_def
      example_parsed_def tight_threshold_def)

lemma tight_parsed_part: "configSchema_part tight_config = Inr tight_parsed"
  by (simp add: configSchema_part_Inr_iff tight_config_def tight_parsed_def example_config_def
      example_parsed_def tight_threshold_def)

lemma tight_health_part:
  "health_part tight_env tight_parsed 8 example_round =
     \<lparr>price = Finite 2000, updatedAtDate = Finite 1700000000000,
      stalenessMinutes = Finite tight_staleness, status = ''FAIL''\<rparr>"
proof -
  have q: "fl (51 / 10) = Finite tight_staleness" by (rule tight_quotient)
  have t: "fl (tight_threshold * 3) = Finite tight_staleness" by (rule tight_triple)
  have c: "\<not> tight_staleness < tight_threshold"
    by (simp add: tight_staleness_def tight_threshold_def)
  show ?thesis
    by (simp add: health_part_def tight_env_def example_env_def tight_parsed_def
        example_parsed_def example_round_def Let_def Number_of_bigint_def Math_pow10_def
        fl_numeral Date_new_def TimeClip_def getTime_def status_part_def q t c)
qed

lemma tight_summary_part:
  "summary_part tight_env tight_parsed (health_part tight_env tight_parsed 8 example_round) =
     ''ETH/USD: FAIL ($2000.00, 5.1m)''"
  by (simp only: tight_health_part)
    (simp add: summary_part_def tight_parsed_def example_parsed_def
      tight_env_def example_env_def tight_staleness_def toFixed_def Let_def digits_numeral
      floor_numeral_div)

lemma tight_summary_main:
  "summary_main tight_env tight_parsed (health_part tight_env tight_parsed 8 example_round) =
     ''ETH/USD: FAIL (2000.00, 5.1m stale)''"
  by (simp only: tight_health_part)
    (simp add: summary_main_def tight_parsed_def example_parsed_def
      tight_env_def example_env_def tight_staleness_def toFixed_def Let_def digits_numeral
      floor_numeral_div)

lemma tight_read_part:
  "snd (read_part tight_env r1 r2 r3) = Inr (''ETH / USD'', 8, example_round)"
  by (simp add: snd_read_part tight_env_def example_env_def)

lemma tight_network:
  "getNetwork tight_env ''evm'' (chainSelectorName tight_parsed) (isTestnet tight_parsed) = Some 8453"
  by (simp add: tight_env_def example_env_def tight_parsed_def example_parsed_def)

lemma tight_assess_part:
  "snd (assess_part tight_env tight_config) =
     Inr (health_part tight_env tight_parsed 8 example_round, ''ETH/USD: FAIL ($2000.00, 5.1m)'')"
proof -
  have "updatedAtDate (health_part tight_env tight_parsed 8 example_round) = Finite 1700000000000"
    by (simp add: tight_health_part)
  then show ?thesis
    unfolding assess_part_Inr_iff
    using tight_parsed_part tight_network tight_read_part tight_summary_part
    by auto
qed

lemma tight_assess_main:
  "snd (assess_main tight_env tight_config) =
     Inr (health_part tight_env tight_parsed 8 example_round,
          ''ETH/USD: FAIL (2000.00, 5.1m stale)'')"
proof -
  have "updatedAtDate (health_part tight_env tight_parsed 8 example_round) = Finite 1700000000000"
    by (simp add: tight_health_part)
  moreover have "snd (read_main tight_env r1 r2 r3) = Inr (''ETH / USD'', 8, example_round)"
    for r1 r2 r3
    using tight_read_part [of r1 r2 r3] by (simp add: read_same)
  ultimately show ?thesis
    unfolding assess_main_Inr_iff
    using tight_parsed_main tight_network tight_summary_main
    by (auto simp: health_same)
qed

section \<open>The status\<close>

text \<open>
  C9: the status is total over the numbers.  For every staleness, NaN and the infinities
  included, and every threshold, both source files assign one of the three strings
  \<open>OK\<close>, \<open>WARN\<close>, \<open>FAIL\<close>; a NaN staleness fails both strict comparisons and is \<open>FAIL\<close>.
\<close>

theorem status_total:
  "status_main s t \<in> {''OK'', ''WARN'', ''FAIL''} \<and>
   status_part s t \<in> {''OK'', ''WARN'', ''FAIL''} \<and>
   status_main NaN t = ''FAIL'' \<and> status_part NaN t = ''FAIL''"
  by (simp add: status_main_def status_part_def)

text \<open>
  C1 (as amended): for every threshold \<open>t > 0\<close> (a binary64 value) and every staleness
  \<open>s\<close>, both source files assign \<open>OK\<close> if \<open>s < t\<close>, \<open>WARN\<close> if \<open>t \<le> s < t3\<close> and \<open>FAIL\<close>
  if \<open>s \<ge> t3\<close>, where \<open>t3\<close> is the binary64 product \<open>threshold * 3\<close> that the code
  compares against, not the real number \<open>3t\<close>.  On the boundaries, \<open>s = t\<close> is \<open>WARN\<close>
  and \<open>s = t3\<close> is \<open>FAIL\<close>.  The product is above \<open>t\<close>; it is \<open>3t\<close> itself when \<open>3t\<close> is a
  binary64 value, and within \<open>2 ^ - 53\<close> of \<open>3t\<close>, relatively, in the normal range.  A
  binary64 staleness \<open>s \<ge> 3t\<close> is \<open>FAIL\<close> for the real \<open>3t\<close> too; only a staleness
  from the product up to the real \<open>3t\<close> is \<open>FAIL\<close> where the real bound says \<open>WARN\<close>.
\<close>

theorem status_thresholds:
  assumes "is_double (Finite t)" and "0 < t"
  shows "(js_lt s (Finite t) \<longrightarrow>
            status_main s (Finite t) = ''OK'' \<and> status_part s (Finite t) = ''OK'') \<and>
         (js_le (Finite t) s \<and> js_lt s (js_mul (Finite t) (Finite 3)) \<longrightarrow>
            status_main s (Finite t) = ''WARN'' \<and> status_part s (Finite t) = ''WARN'') \<and>
         (js_le (js_mul (Finite t) (Finite 3)) s \<longrightarrow>
            status_main s (Finite t) = ''FAIL'' \<and> status_part s (Finite t) = ''FAIL'') \<and>
         status_main (Finite t) (Finite t) = ''WARN'' \<and>
         status_part (Finite t) (Finite t) = ''WARN'' \<and>
         status_main (js_mul (Finite t) (Finite 3)) (Finite t) = ''FAIL'' \<and>
         status_part (js_mul (Finite t) (Finite 3)) (Finite t) = ''FAIL'' \<and>
         js_lt (Finite t) (js_mul (Finite t) (Finite 3)) \<and>
         (is_double (Finite (3 * t)) \<longrightarrow> js_mul (Finite t) (Finite 3) = Finite (3 * t)) \<and>
         (pow2 (- 1022) \<le> 3 * t \<and> 3 * t < pow2 1023 \<longrightarrow>
            (\<exists>v. js_mul (Finite t) (Finite 3) = Finite v \<and> \<bar>v - 3 * t\<bar> \<le> 3 * t / 2 ^ 53)) \<and>
         (is_double s \<and> js_le (Finite (3 * t)) s \<longrightarrow>
            status_main s (Finite t) = ''FAIL'' \<and> status_part s (Finite t) = ''FAIL'')"
proof -
  let ?t3 = "js_mul (Finite t) (Finite 3)"
  have lt3: "js_lt (Finite t) ?t3"
    using double_lt_triple [of t] assms by simp
  have a: "js_le (Finite t) s \<Longrightarrow> \<not> js_lt s (Finite t)" for s
    by (rule js_le_Finite)
  have b: "js_le ?t3 s \<Longrightarrow> \<not> js_lt s (Finite t) \<and> \<not> js_lt s ?t3" for s
  proof -
    assume le: "js_le ?t3 s"
    have "js_lt (Finite t) s" using lt3 le by (rule js_lt_le_trans)
    then have "\<not> js_lt s (Finite t)" by (rule js_lt_asym)
    moreover have "\<not> js_lt s ?t3"
      using le by (cases ?t3; cases s) (auto simp: js_le_def)
    ultimately show ?thesis by simp
  qed
  have c: "\<not> js_lt ?t3 (Finite t)" using lt3 by (rule js_lt_asym)
  have first: "(js_lt s (Finite t) \<longrightarrow>
            status_main s (Finite t) = ''OK'' \<and> status_part s (Finite t) = ''OK'') \<and>
         (js_le (Finite t) s \<and> js_lt s ?t3 \<longrightarrow>
            status_main s (Finite t) = ''WARN'' \<and> status_part s (Finite t) = ''WARN'') \<and>
         (js_le ?t3 s \<longrightarrow>
            status_main s (Finite t) = ''FAIL'' \<and> status_part s (Finite t) = ''FAIL'') \<and>
         status_main (Finite t) (Finite t) = ''WARN'' \<and>
         status_part (Finite t) (Finite t) = ''WARN'' \<and>
         status_main ?t3 (Finite t) = ''FAIL'' \<and>
         status_part ?t3 (Finite t) = ''FAIL''"
    unfolding status_main_def status_part_def
    using a b c lt3 js_lt_irrefl [of "Finite t"] js_lt_irrefl [of ?t3] by auto
  have exact: "is_double (Finite (3 * t)) \<longrightarrow> ?t3 = Finite (3 * t)"
    by (simp add: mult.commute)
  have near: "\<exists>v. ?t3 = Finite v \<and> \<bar>v - 3 * t\<bar> \<le> 3 * t / 2 ^ 53"
    if "pow2 (- 1022) \<le> 3 * t \<and> 3 * t < pow2 1023"
  proof -
    have "pow2 (- 1022) \<le> \<bar>t * 3\<bar>" "\<bar>t * 3\<bar> < pow2 1023" using that assms(2) by simp_all
    then obtain v where "fl (t * 3) = Finite v" "\<bar>v - t * 3\<bar> \<le> \<bar>t * 3\<bar> / 2 ^ 53"
      using fl_normal [of "- 1022" "t * 3" 1023] by auto
    then show ?thesis using assms(2) by (simp add: mult.commute)
  qed
  have real: "status_main s (Finite t) = ''FAIL'' \<and> status_part s (Finite t) = ''FAIL''"
    if "is_double s \<and> js_le (Finite (3 * t)) s"
    using status_fail_real [of t s] that assms by (simp add: status_same)
  show ?thesis using first lt3 exact near real by blast
qed

theorem status_thresholds_witness:
  "is_double (Finite 10) \<and> (0 :: rat) < 10 \<and>
   status_main (Finite 5) (Finite 10) = ''OK'' \<and> status_part (Finite 5) (Finite 10) = ''OK'' \<and>
   status_main (Finite 25) (Finite 10) = ''WARN'' \<and> status_part (Finite 25) (Finite 10) = ''WARN'' \<and>
   status_main (Finite 45) (Finite 10) = ''FAIL'' \<and> status_part (Finite 45) (Finite 10) = ''FAIL'' \<and>
   status_main (Finite 10) (Finite 10) = ''WARN'' \<and> status_part (Finite 10) (Finite 10) = ''WARN'' \<and>
   status_main (Finite 30) (Finite 10) = ''FAIL'' \<and> status_part (Finite 30) (Finite 10) = ''FAIL'' \<and>
   is_double (Finite (3 * 10)) \<and> js_mul (Finite 10) (Finite 3) = Finite (3 * 10) \<and>
   is_double (Finite 45) \<and> js_le (Finite (3 * 10)) (Finite 45)"
proof -
  have d: "is_double (Finite 10)" by (simp add: fl_numeral)
  have p: "(0 :: rat) < 10" by simp
  show ?thesis
    using d p status_thresholds [OF d p, of "Finite 5"] status_thresholds [OF d p, of "Finite 25"]
      status_thresholds [OF d p, of "Finite 45"]
    by (simp add: fl_numeral js_le_def)
qed

text \<open>
  The real number \<open>3t\<close> is not the bound.  With the threshold \<open>1.7\<close> and a round
  306 seconds old, the staleness is the binary64 value of \<open>5.1\<close>: it is not below the
  threshold and it is below three times the threshold, yet both source files say \<open>FAIL\<close>,
  because \<open>1.7 * 3\<close> rounds to that same value.
\<close>

theorem status_thresholds_counterexample:
  "fl (17 / 10) = Finite tight_threshold \<and> fl (51 / 10) = Finite tight_staleness \<and>
   is_double (Finite tight_threshold) \<and> 0 < tight_threshold \<and>
   stalenessMinutes (health_main tight_env tight_parsed 8 example_round) = Finite tight_staleness \<and>
   stalenessMinutes (health_part tight_env tight_parsed 8 example_round) = Finite tight_staleness \<and>
   tight_threshold \<le> tight_staleness \<and> tight_staleness < 3 * tight_threshold \<and>
   status_main (Finite tight_staleness) (Finite tight_threshold) = ''FAIL'' \<and>
   status_part (Finite tight_staleness) (Finite tight_threshold) = ''FAIL'' \<and>
   status_main (Finite tight_staleness) (Finite tight_threshold) \<noteq> ''WARN'' \<and>
   status_part (Finite tight_staleness) (Finite tight_threshold) \<noteq> ''WARN'' \<and>
   snd (onCronTrigger_main tight_env tight_config) = Inr ''ETH/USD: FAIL (2000.00, 5.1m stale)'' \<and>
   snd (onCronTrigger_part tight_env tight_config) = Inr ''ETH/USD: FAIL ($2000.00, 5.1m)''"
proof -
  have t: "fl (tight_threshold * 3) = Finite tight_staleness" by (rule tight_triple)
  have c: "tight_threshold \<le> tight_staleness \<and> tight_staleness < 3 * tight_threshold \<and>
      0 < tight_threshold"
    by (simp add: tight_staleness_def tight_threshold_def)
  have s: "status_main (Finite tight_staleness) (Finite tight_threshold) = ''FAIL''"
    using c by (simp add: status_main_def t)
  show ?thesis
    using c s
    by (simp add: tight_threshold_nearest tight_quotient tight_threshold_double health_same
        tight_health_part status_same [symmetric] snd_onCronTrigger_main snd_onCronTrigger_part
        tight_assess_main tight_assess_part)
qed

section \<open>The configuration\<close>

text \<open>
  C4: a configuration whose feed address does not match \<open>/^0x[a-fA-F0-9]{40}$/\<close> (or is
  not a string) or whose threshold is not a number greater than zero is rejected by both
  source files with a \<open>ZodError\<close> that names the field.  Nothing is sent, nothing is
  substituted: part_000 leaves no trace at all, main.ts logs the error message only.
\<close>

theorem invalid_config_rejected:
  assumes "(\<forall>a. raw ''feedAddress'' = JString a \<longrightarrow> \<not> address_regex a) \<or>
           (\<forall>t. raw ''stalenessThresholdMinutes'' = JNumber t \<longrightarrow> \<not> js_lt (Finite 0) t)"
  shows "\<exists>issues_main issues_part.
           onCronTrigger_main env raw =
             ([Log (''ERROR: '' @ zodMessage env issues_main)], Inl (ZodError issues_main)) \<and>
           onCronTrigger_part env raw = ([], Inl (ZodError issues_part)) \<and>
           calls (fst (onCronTrigger_main env raw)) = [] \<and>
           calls (fst (onCronTrigger_part env raw)) = [] \<and>
           ((\<forall>a. raw ''feedAddress'' = JString a \<longrightarrow> \<not> address_regex a) \<longrightarrow>
              ''feedAddress'' \<in> path ` set issues_main \<and>
              ''feedAddress'' \<in> path ` set issues_part) \<and>
           ((\<forall>t. raw ''stalenessThresholdMinutes'' = JNumber t \<longrightarrow> \<not> js_lt (Finite 0) t) \<longrightarrow>
              ''stalenessThresholdMinutes'' \<in> path ` set issues_main \<and>
              ''stalenessThresholdMinutes'' \<in> path ` set issues_part)"
proof -
  obtain im where im: "configSchema_main raw = Inl (ZodError im)"
    and im_a: "(\<forall>a. raw ''feedAddress'' = JString a \<longrightarrow> \<not> address_regex a) \<longrightarrow>
                 ''feedAddress'' \<in> path ` set im"
    and im_t: "(\<forall>t. raw ''stalenessThresholdMinutes'' = JNumber t \<longrightarrow> \<not> js_lt (Finite 0) t) \<longrightarrow>
                 ''stalenessThresholdMinutes'' \<in> path ` set im"
    using configSchema_reject(1) [OF assms] by blast
  obtain ip where ip: "configSchema_part raw = Inl (ZodError ip)"
    and ip_a: "(\<forall>a. raw ''feedAddress'' = JString a \<longrightarrow> \<not> address_regex a) \<longrightarrow>
                 ''feedAddress'' \<in> path ` set ip"
    and ip_t: "(\<forall>t. raw ''stalenessThresholdMinutes'' = JNumber t \<longrightarrow> \<not> js_lt (Finite 0) t) \<longrightarrow>
                 ''stalenessThresholdMinutes'' \<in> path ` set ip"
    using configSchema_reject(2) [OF assms] by blast
  have "try_main env raw = ([], Inl (ZodError im))" by (simp add: try_main_eq im)
  then have "assess_main env raw =
      ([Log (''ERROR: '' @ zodMessage env im)], Inl (ZodError im))"
    using assess_main_Inl [of env raw "[]" "ZodError im"] by simp
  then have m: "onCronTrigger_main env raw =
      ([Log (''ERROR: '' @ zodMessage env im)], Inl (ZodError im))"
    by (simp add: onCronTrigger_main_eq)
  have "assess_part env raw = ([], Inl (ZodError ip))" by (simp add: assess_part_eq ip)
  then have p: "onCronTrigger_part env raw = ([], Inl (ZodError ip))"
    by (simp add: onCronTrigger_part_eq)
  show ?thesis using m p im_a im_t ip_a ip_t by (intro exI [of _ im] exI [of _ ip]) simp
qed

theorem invalid_config_rejected_witness:
  "bad_address_config ''feedAddress'' = JString ''0xZZZ'' \<and> \<not> address_regex ''0xZZZ'' \<and>
   onCronTrigger_main example_env bad_address_config =
     ([Log ''ERROR: invalid configuration''],
      Inl (ZodError [Issue ''feedAddress'' invalid_string
                       (Some ''feedAddress must be a valid Ethereum address'')])) \<and>
   onCronTrigger_part example_env bad_address_config =
     ([], Inl (ZodError [Issue ''feedAddress'' invalid_string None]))"
proof -
  have h: "\<forall>a. bad_address_config ''feedAddress'' = JString a \<longrightarrow> \<not> address_regex a"
    by (simp add: bad_address_config_def)
  have cm: "configSchema_main bad_address_config =
      Inl (ZodError [Issue ''feedAddress'' invalid_string
                       (Some ''feedAddress must be a valid Ethereum address'')])"
    by (simp add: configSchema_main_def bad_address_config_def example_config_def z_object_def)
  have cp: "configSchema_part bad_address_config =
      Inl (ZodError [Issue ''feedAddress'' invalid_string None])"
    by (simp add: configSchema_part_def bad_address_config_def example_config_def z_object_def)
  have z: "zodMessage example_env = (\<lambda>is. ''invalid configuration'')"
    by (simp add: example_env_def)
  have h': "bad_address_config ''feedAddress'' = JString ''0xZZZ'' \<and> \<not> address_regex ''0xZZZ''"
    by (simp add: bad_address_config_def)
  show ?thesis
    using h' invalid_config_rejected [of bad_address_config example_env, OF disjI1 [OF h]]
    by (simp add: onCronTrigger_main_eq onCronTrigger_part_eq assess_part_eq try_main_eq
        assess_main_def catch_main_def cm cp z)
qed

text \<open>
  C2 (as amended): validation requires \<open>schedule\<close>, \<open>feedName\<close> and
  \<open>chainSelectorName\<close> to be strings and accepts the empty string for each of them.  In
  both source files a configuration passes exactly when these three are strings, the feed
  address is a string matching the pattern, the threshold is a number greater than zero
  and the testnet flag is a boolean; otherwise a \<open>ZodError\<close> is thrown.
\<close>

theorem validation_accepts:
  "((\<exists>config. configSchema_main raw = Inr config) \<longleftrightarrow>
      (\<exists>s a n t c b.
         raw ''schedule'' = JString s \<and>
         raw ''feedAddress'' = JString a \<and> address_regex a \<and>
         raw ''feedName'' = JString n \<and>
         raw ''stalenessThresholdMinutes'' = JNumber t \<and> js_lt (Finite 0) t \<and>
         raw ''chainSelectorName'' = JString c \<and>
         raw ''isTestnet'' = JBoolean b)) \<and>
   ((\<exists>config. configSchema_part raw = Inr config) \<longleftrightarrow>
      (\<exists>config. configSchema_main raw = Inr config)) \<and>
   ((\<exists>config. configSchema_main raw = Inr config) \<or>
      (\<exists>issues. configSchema_main raw = Inl (ZodError issues))) \<and>
   ((\<exists>config. configSchema_part raw = Inr config) \<or>
      (\<exists>issues. configSchema_part raw = Inl (ZodError issues)))"
proof (intro conjI)
  show "(\<exists>config. configSchema_main raw = Inr config) \<longleftrightarrow>
      (\<exists>s a n t c b.
         raw ''schedule'' = JString s \<and>
         raw ''feedAddress'' = JString a \<and> address_regex a \<and>
         raw ''feedName'' = JString n \<and>
         raw ''stalenessThresholdMinutes'' = JNumber t \<and> js_lt (Finite 0) t \<and>
         raw ''chainSelectorName'' = JString c \<and>
         raw ''isTestnet'' = JBoolean b)"
  proof
    assume "\<exists>config. configSchema_main raw = Inr config"
    then show "\<exists>s a n t c b.
         raw ''schedule'' = JString s \<and>
         raw ''feedAddress'' = JString a \<and> address_regex a \<and>
         raw ''feedName'' = JString n \<and>
         raw ''stalenessThresholdMinutes'' = JNumber t \<and> js_lt (Finite 0) t \<and>
         raw ''chainSelectorName'' = JString c \<and>
         raw ''isTestnet'' = JBoolean b"
      unfolding configSchema_main_Inr_iff by blast
  next
    assume "\<exists>s a n t c b.
         raw ''schedule'' = JString s \<and>
         raw ''feedAddress'' = JString a \<and> address_regex a \<and>
         raw ''feedName'' = JString n \<and>
         raw ''stalenessThresholdMinutes'' = JNumber t \<and> js_lt (Finite 0) t \<and>
         raw ''chainSelectorName'' = JString c \<and>
         raw ''isTestnet'' = JBoolean b"
    then obtain s a n t c b where f:
         "raw ''schedule'' = JString s" "raw ''feedAddress'' = JString a" "address_regex a"
         "raw ''feedName'' = JString n" "raw ''stalenessThresholdMinutes'' = JNumber t"
         "js_lt (Finite 0) t" "raw ''chainSelectorName'' = JString c"
         "raw ''isTestnet'' = JBoolean b"
      by blast
    have "configSchema_main raw =
        Inr \<lparr>schedule = s, feedAddress = a, feedName = n, stalenessThresholdMinutes = t,
             chainSelectorName = c, isTestnet = b\<rparr>"
      unfolding configSchema_main_Inr_iff using f by simp
    then show "\<exists>config. configSchema_main raw = Inr config" by blast
  qed
  show "(\<exists>config. configSchema_part raw = Inr config) \<longleftrightarrow>
        (\<exists>config. configSchema_main raw = Inr config)"
    by (simp add: configSchema_same)
  show "(\<exists>config. configSchema_main raw = Inr config) \<or>
        (\<exists>issues. configSchema_main raw = Inl (ZodError issues))"
    unfolding configSchema_main_def using z_object_cases by blast
  show "(\<exists>config. configSchema_part raw = Inr config) \<or>
        (\<exists>issues. configSchema_part raw = Inl (ZodError issues))"
    unfolding configSchema_part_def using z_object_cases by blast
qed

theorem validation_accepts_counterexample:
  "blank_config ''schedule'' = JString [] \<and> blank_config ''feedName'' = JString [] \<and>
   blank_config ''chainSelectorName'' = JString [] \<and>
   configSchema_main blank_config =
     Inr (example_parsed \<lparr>schedule := [], feedName := [], chainSelectorName := []\<rparr>) \<and>
   configSchema_part blank_config =
     Inr (example_parsed \<lparr>schedule := [], feedName := [], chainSelectorName := []\<rparr>) \<and>
   unnamed_config ''feedName'' = JString [] \<and>
   snd (onCronTrigger_part example_env unnamed_config) = Inr '': OK ($2000.00, 5.0m)'' \<and>
   snd (onCronTrigger_main example_env unnamed_config) = Inr '': OK (2000.00, 5.0m stale)''"
proof -
  have b: "configSchema_main blank_config =
       Inr (example_parsed \<lparr>schedule := [], feedName := [], chainSelectorName := []\<rparr>)"
    by (simp add: configSchema_main_Inr_iff blank_config_def example_config_def example_parsed_def)
  have b': "configSchema_part blank_config =
       Inr (example_parsed \<lparr>schedule := [], feedName := [], chainSelectorName := []\<rparr>)"
    using b by (simp add: configSchema_same)
  let ?c = "example_parsed \<lparr>feedName := []\<rparr>"
  have u: "configSchema_main unnamed_config = Inr ?c"
    by (simp add: configSchema_main_Inr_iff unnamed_config_def example_config_def example_parsed_def)
  have u': "configSchema_part unnamed_config = Inr ?c"
    using u by (simp add: configSchema_same)
  have n: "getNetwork example_env ''evm'' (chainSelectorName ?c) (isTestnet ?c) = Some 8453"
    using example_network by simp
  have hp: "health_part example_env ?c 8 example_round = example_health"
    using example_health_part [unfolded health_part_def]
    by (simp add: health_part_def example_health_def)
  have hm: "health_main example_env ?c 8 example_round = example_health"
    using hp by (simp add: health_same)
  have sp: "summary_part example_env ?c example_health = '': OK ($2000.00, 5.0m)''"
    using example_summary_part by (simp add: summary_part_def example_parsed_def)
  have sm: "summary_main example_env ?c example_health = '': OK (2000.00, 5.0m stale)''"
    using example_summary_main by (simp add: summary_main_def example_parsed_def)
  have d: "updatedAtDate example_health = Finite 1700000000000" by (simp add: example_health_def)
  have rp: "snd (read_part example_env r1 r2 r3) = Inr (''ETH / USD'', 8, example_round)"
    for r1 r2 r3 by (rule example_read_part)
  have rm: "snd (read_main example_env r1 r2 r3) = Inr (''ETH / USD'', 8, example_round)"
    for r1 r2 r3 using rp [of r1 r2 r3] by (simp add: read_same)
  have ap: "snd (assess_part example_env unnamed_config) =
      Inr (example_health, '': OK ($2000.00, 5.0m)'')"
    unfolding assess_part_Inr_iff using u' n rp hp sp d by auto
  have am: "snd (assess_main example_env unnamed_config) =
      Inr (example_health, '': OK (2000.00, 5.0m stale)'')"
    unfolding assess_main_Inr_iff using u n rm hm sm d by auto
  show ?thesis
    using b b' ap am
    by (simp add: snd_onCronTrigger_main snd_onCronTrigger_part blank_config_def
        unnamed_config_def)
qed

section \<open>The contract calls\<close>

text \<open>
  C7: every request that either source file sends carries the block reference
  \<open>LAST_FINALIZED_BLOCK_NUMBER\<close>; no evaluation sends a request at another block.  When
  the configuration is valid and the network is found, the requests sent are exactly the
  three of \<open>description\<close>, \<open>decimals\<close> and \<open>latestRoundData\<close>, in this order.
\<close>

theorem calls_pinned:
  "(\<forall>r \<in> set (calls (fst (onCronTrigger_main env raw))).
      blockNumber r = LAST_FINALIZED_BLOCK_NUMBER) \<and>
   (\<forall>r \<in> set (calls (fst (onCronTrigger_part env raw))).
      blockNumber r = LAST_FINALIZED_BLOCK_NUMBER) \<and>
   (\<forall>config selector.
      configSchema_main raw = Inr config \<and>
      getNetwork env ''evm'' (chainSelectorName config) (isTestnet config) = Some selector \<longrightarrow>
      map call_data (calls (fst (onCronTrigger_main env raw))) =
        [encodeFunctionData env ''description'', encodeFunctionData env ''decimals'',
         encodeFunctionData env ''latestRoundData''] \<and>
      map call_data (calls (fst (onCronTrigger_part env raw))) =
        [encodeFunctionData env ''description'', encodeFunctionData env ''decimals'',
         encodeFunctionData env ''latestRoundData''])"
proof -
  have "\<forall>r \<in> set (calls (fst (onCronTrigger_main env raw))).
      blockNumber r = LAST_FINALIZED_BLOCK_NUMBER"
    by (auto simp: calls_onCronTrigger_main calls_try_main feed_request_def
        split: sum.splits option.splits)
  moreover have "\<forall>r \<in> set (calls (fst (onCronTrigger_part env raw))).
      blockNumber r = LAST_FINALIZED_BLOCK_NUMBER"
    by (auto simp: calls_onCronTrigger_part calls_assess_part feed_request_def
        split: sum.splits option.splits)
  moreover have "map call_data (calls (fst (onCronTrigger_main env raw))) =
        [encodeFunctionData env ''description'', encodeFunctionData env ''decimals'',
         encodeFunctionData env ''latestRoundData''] \<and>
      map call_data (calls (fst (onCronTrigger_part env raw))) =
        [encodeFunctionData env ''description'', encodeFunctionData env ''decimals'',
         encodeFunctionData env ''latestRoundData'']"
    if "configSchema_main raw = Inr config"
      and "getNetwork env ''evm'' (chainSelectorName config) (isTestnet config) = Some selector"
    for config selector
    using that configSchema_same [of raw config]
    by (simp add: calls_onCronTrigger_main calls_try_main calls_onCronTrigger_part
        calls_assess_part feed_request_def)
  ultimately show ?thesis by blast
qed

theorem calls_pinned_witness:
  "map blockNumber (calls (fst (onCronTrigger_main example_env example_config))) =
     [LAST_FINALIZED_BLOCK_NUMBER, LAST_FINALIZED_BLOCK_NUMBER, LAST_FINALIZED_BLOCK_NUMBER] \<and>
   map blockNumber (calls (fst (onCronTrigger_part example_env example_config))) =
     [LAST_FINALIZED_BLOCK_NUMBER, LAST_FINALIZED_BLOCK_NUMBER, LAST_FINALIZED_BLOCK_NUMBER] \<and>
   map call_data (calls (fst (onCronTrigger_main example_env example_config))) =
     [''description'', ''decimals'', ''latestRoundData''] \<and>
   map call_data (calls (fst (onCronTrigger_part example_env example_config))) =
     [''description'', ''decimals'', ''latestRoundData'']"
proof -
  have e: "encodeFunctionData example_env = (\<lambda>functionName. functionName)"
    by (simp add: example_env_def)
  show ?thesis
    using calls_pinned [of example_env example_config] example_parsed_main example_network
    by (simp add: calls_onCronTrigger_main calls_try_main calls_onCronTrigger_part
        calls_assess_part example_parsed_part feed_request_def e)
qed

text \<open>
  C5: when the configuration is valid, the network is found, and one of the three calls
  fails, both source files end with an error and return no summary.  main.ts throws the
  failure of the first failing call after logging the heading, the two step lines and
  the error message; part_000 throws after logging its heading.  No feed, price,
  staleness or status line is logged, and no health value exists.
\<close>

theorem call_failure_aborts:
  assumes "configSchema_main raw = Inr config"
    and "getNetwork env ''evm'' (chainSelectorName config) (isTestnet config) = Some selector"
    and "\<exists>functionName \<in> {''description'', ''decimals'', ''latestRoundData''}.
           \<exists>m. callContract env (feed_request env config selector functionName) = Inl m"
  shows "\<exists>m e.
           snd (assess_main env raw) = Inl (CallFailed m) \<and>
           snd (onCronTrigger_main env raw) = Inl (CallFailed m) \<and>
           logs (fst (onCronTrigger_main env raw)) =
             [rule_line, ''Feed Health Monitor: '' @ feedName config, rule_line,
              ''[Step 1] Preparing EVM calls...'', ''[Step 2] Executing parallel EVM calls...'',
              ''ERROR: '' @ m] \<and>
           snd (assess_part env raw) = Inl e \<and>
           snd (onCronTrigger_part env raw) = Inl e \<and>
           logs (fst (onCronTrigger_part env raw)) = [''Feed Health Monitor: '' @ feedName config]"
proof -
  let ?r1 = "feed_request env config selector ''description''"
  let ?r2 = "feed_request env config selector ''decimals''"
  let ?r3 = "feed_request env config selector ''latestRoundData''"
  have fail: "(\<exists>m. callContract env ?r1 = Inl m) \<or> (\<exists>m. callContract env ?r2 = Inl m) \<or>
              (\<exists>m. callContract env ?r3 = Inl m)"
    using assms(3) by auto
  then obtain m1 m2 m3 where
    "callContract env ?r1 = Inl m1 \<or> callContract env ?r2 = Inl m2 \<or> callContract env ?r3 = Inl m3"
    by blast
  then obtain m e where
    rm: "read_main env ?r1 ?r2 ?r3 = ([Log ''[Step 2] Executing parallel EVM calls...''], Inl (CallFailed m))"
    and rp: "read_part env ?r1 ?r2 ?r3 = ([], Inl e)"
    using read_main_call_failed [of env ?r1 m1 ?r2 m2 ?r3 m3]
      read_part_call_failed [of env ?r1 m1 ?r2 m2 ?r3 m3] by blast
  have cp: "configSchema_part raw = Inr config" using assms(1) by (simp add: configSchema_same)
  have tm: "try_main env raw =
      ([Log rule_line, Log (''Feed Health Monitor: '' @ feedName config), Log rule_line,
        Log ''[Step 1] Preparing EVM calls...'', CallContract ?r1, CallContract ?r2, CallContract ?r3,
        Log ''[Step 2] Executing parallel EVM calls...''], Inl (CallFailed m))"
    by (simp add: try_main_eq assms(1,2) rm Let_def)
  have am: "assess_main env raw =
      ([Log rule_line, Log (''Feed Health Monitor: '' @ feedName config), Log rule_line,
        Log ''[Step 1] Preparing EVM calls...'', CallContract ?r1, CallContract ?r2, CallContract ?r3,
        Log ''[Step 2] Executing parallel EVM calls...'', Log (''ERROR: '' @ m)], Inl (CallFailed m))"
    using assess_main_Inl [OF tm] by simp
  have ap: "assess_part env raw =
      ([Log (''Feed Health Monitor: '' @ feedName config), CallContract ?r1, CallContract ?r2,
        CallContract ?r3], Inl e)"
    by (simp add: assess_part_eq cp assms(2) rp Let_def)
  show ?thesis
    by (intro exI [of _ m] exI [of _ e])
      (simp add: am ap fst_onCronTrigger_main snd_onCronTrigger_main fst_onCronTrigger_part
        snd_onCronTrigger_part)
qed

theorem call_failure_aborts_witness:
  "configSchema_main example_config = Inr example_parsed \<and>
   getNetwork failing_env ''evm'' (chainSelectorName example_parsed) (isTestnet example_parsed) =
     Some 8453 \<and>
   callContract failing_env (feed_request failing_env example_parsed 8453 ''decimals'') =
     Inl ''execution reverted'' \<and>
   snd (onCronTrigger_main failing_env example_config) = Inl (CallFailed ''execution reverted'') \<and>
   logs (fst (onCronTrigger_main failing_env example_config)) =
     [rule_line, ''Feed Health Monitor: ETH/USD'', rule_line,
      ''[Step 1] Preparing EVM calls...'', ''[Step 2] Executing parallel EVM calls...'',
      ''ERROR: execution reverted''] \<and>
   snd (onCronTrigger_part failing_env example_config) = Inl (CallFailed ''execution reverted'') \<and>
   logs (fst (onCronTrigger_part failing_env example_config)) = [''Feed Health Monitor: ETH/USD'']"
proof -
  have n: "getNetwork failing_env ''evm'' (chainSelectorName example_parsed)
      (isTestnet example_parsed) = Some 8453"
    by (simp add: failing_env_def example_env_def example_parsed_def)
  have c: "callContract failing_env (feed_request failing_env example_parsed 8453 ''decimals'') =
      Inl ''execution reverted''"
    by (simp add: failing_env_def example_env_def feed_request_def)
  have f: "\<exists>functionName \<in> {''description'', ''decimals'', ''latestRoundData''}.
      \<exists>m. callContract failing_env (feed_request failing_env example_parsed 8453 functionName) = Inl m"
    using c by blast
  have c1: "callContract failing_env (feed_request failing_env example_parsed 8453 ''description'') =
      Inr []"
    by (simp add: failing_env_def example_env_def feed_request_def)
  have d1: "decodeDescription failing_env [] = Inr ''ETH / USD''"
    by (simp add: failing_env_def example_env_def)
  have fn: "feedName example_parsed = ''ETH/USD''" by (simp add: example_parsed_def)
  show ?thesis
    using call_failure_aborts [OF example_parsed_main n f] n c
    by (simp add: example_parsed_main snd_onCronTrigger_main snd_onCronTrigger_part
        assess_part_eq example_parsed_part snd_read_part c1 d1 fn assess_main_def snd_catch_main
        try_main_eq snd_read_main Let_def)
qed

section \<open>The price and the date\<close>

text \<open>
  C6 (as amended): the price is \<open>Number(answer) / 10 ** decimals\<close> in binary64
  arithmetic, the same in both source files, and not the exact quotient.  For every
  signed 256-bit answer and every 8-bit number of decimals: when the engine's power of
  ten is a positive finite binary64 value, the price has the sign of the answer (a
  negative answer gives a negative price, nothing is clamped, and the answer zero gives
  zero); when the engine's power of ten is within \<open>2 ^ - 52\<close> of \<open>10 ^ decimals\<close>,
  relatively, the price is finite and differs from the exact quotient by at most
  \<open>2 ^ - 50\<close> of its magnitude; with no decimals and an answer of magnitude at most
  \<open>2 ^ 53\<close> the price is the answer itself.
\<close>

theorem price_accuracy:
  "price (health_main env config decimals rd) = price (health_part env config decimals rd) \<and>
   price (health_main env config decimals rd) =
     js_div (Number_of_bigint (sint (answer rd)))
       (Math_pow10 (exponentiate10 env) (unat decimals)) \<and>
   (\<forall>P. Math_pow10 (exponentiate10 env) (unat decimals) = Finite P \<and>
        is_double (Finite P) \<and> 0 < P \<longrightarrow>
        (sint (answer rd) < 0 \<longrightarrow>
           js_lt (price (health_main env config decimals rd)) (Finite 0)) \<and>
        (0 < sint (answer rd) \<longrightarrow>
           js_lt (Finite 0) (price (health_main env config decimals rd))) \<and>
        (sint (answer rd) = 0 \<longrightarrow>
           price (health_main env config decimals rd) = Finite 0)) \<and>
   (\<forall>P. Math_pow10 (exponentiate10 env) (unat decimals) = Finite P \<and>
        \<bar>P - 10 ^ unat decimals\<bar> \<le> 10 ^ unat decimals / 2 ^ 52 \<longrightarrow>
        (\<exists>p. price (health_main env config decimals rd) = Finite p \<and>
             \<bar>p - exact_price decimals rd\<bar> \<le> \<bar>exact_price decimals rd\<bar> / 2 ^ 50)) \<and>
   (unat decimals = 0 \<and> \<bar>sint (answer rd)\<bar> \<le> 2 ^ 53 \<longrightarrow>
      price (health_main env config decimals rd) = Finite (of_int (sint (answer rd))))"
proof -
  let ?a = "sint (answer rd)"
  let ?d = "unat decimals"
  let ?price = "price (health_main env config decimals rd)"
  have "- (2 ^ 255) \<le> ?a" using sint_ge [of "answer rd"] by simp
  moreover have "?a < 2 ^ 255" using sint_lt [of "answer rd"] by simp
  ultimately have a: "\<bar>?a\<bar> \<le> 2 ^ 255" by simp
  have d: "?d < 256" using unsigned_less [of decimals, where ?'a = nat] by simp
  have same: "?price = price (health_part env config decimals rd)"
    by (simp add: health_same)
  have eq: "?price = js_div (Number_of_bigint ?a) (Math_pow10 (exponentiate10 env) ?d)"
    by (rule price_main_eq)
  have sign: "(?a < 0 \<longrightarrow> js_lt ?price (Finite 0)) \<and> (0 < ?a \<longrightarrow> js_lt (Finite 0) ?price) \<and>
      (?a = 0 \<longrightarrow> ?price = Finite 0)"
    if "Math_pow10 (exponentiate10 env) ?d = Finite P \<and> is_double (Finite P) \<and> 0 < P" for P
  proof -
    have "fl P = Finite P" using that by simp
    then have "P < pow2 1024" by (rule fl_FiniteD(2))
    then have "P < 2 ^ 1024" by (simp add: pow2_numeral)
    then show ?thesis using price_sign [OF a, of P] that by (simp add: eq)
  qed
  have close: "\<exists>p. ?price = Finite p \<and>
      \<bar>p - exact_price decimals rd\<bar> \<le> \<bar>exact_price decimals rd\<bar> / 2 ^ 50"
    if "Math_pow10 (exponentiate10 env) ?d = Finite P \<and> \<bar>P - 10 ^ ?d\<bar> \<le> 10 ^ ?d / 2 ^ 52" for P
    using price_close [OF a d, of P] that by (simp add: eq exact_price_def)
  have exact: "?price = Finite (of_int ?a)" if "?d = 0 \<and> \<bar>?a\<bar> \<le> 2 ^ 53"
    using that fl_int_exact [of ?a] by (simp add: eq Number_of_bigint_def Math_pow10_def)
  show ?thesis using same eq sign close exact by blast
qed

theorem price_accuracy_witness:
  "Math_pow10 (exponentiate10 example_env) (unat (8 :: 8 word)) = Finite 100000000 \<and>
   is_double (Finite 100000000) \<and> (0 :: rat) < 100000000 \<and>
   \<bar>100000000 - 10 ^ unat (8 :: 8 word)\<bar> \<le> (10 :: rat) ^ unat (8 :: 8 word) / 2 ^ 52 \<and>
   0 < sint (answer example_round) \<and>
   price (health_main example_env example_parsed 8 example_round) = Finite 2000 \<and>
   price (health_part example_env example_parsed 8 example_round) = Finite 2000 \<and>
   exact_price 8 example_round = 2000 \<and>
   Math_pow10 (exponentiate10 example_env) (unat (0 :: 8 word)) = Finite 1 \<and>
   is_double (Finite 1) \<and>
   sint (answer negative_round) < 0 \<and>
   \<bar>sint (answer negative_round)\<bar> \<le> 2 ^ 53 \<and> unat (0 :: 8 word) = 0 \<and>
   price (health_main example_env example_parsed 0 negative_round) = Finite (- 5) \<and>
   price (health_part example_env example_parsed 0 negative_round) = Finite (- 5) \<and>
   js_lt (price (health_main example_env example_parsed 0 negative_round)) (Finite 0) \<and>
   Math_pow10 (exponentiate10 rough_env) (unat (34 :: 8 word)) =
     Finite 10000000000000000608673814477275136 \<and>
   is_double (Finite 10000000000000000608673814477275136) \<and>
   \<bar>10000000000000000608673814477275136 - 10 ^ unat (34 :: 8 word)\<bar> \<le>
     (10 :: rat) ^ unat (34 :: 8 word) / 2 ^ 52 \<and>
   exact_price 34 large_round = 50000000000000000000 \<and>
   price (health_main rough_env example_parsed 34 large_round) = Finite 50000000000000000000 \<and>
   price (health_main example_env example_parsed 34 large_round) = Finite 50000000000000008192 \<and>
   \<bar>50000000000000008192 - exact_price 34 large_round\<bar> \<le> \<bar>exact_price 34 large_round\<bar> / 2 ^ 50"
proof -
  have e: "price (health_part example_env example_parsed 8 example_round) = Finite 2000"
    by (simp add: example_health_part)
  have s: "sint (answer example_round) = 200000000000" by (simp add: example_round_def)
  have n: "sint (answer negative_round) = - 5" by (simp add: negative_round_def example_round_def)
  have l: "sint (answer large_round) = 500000000000000000000000000000000000000000000000000000"
    by (simp add: large_round_def example_round_def)
  have p8: "Math_pow10 (exponentiate10 example_env) (unat (8 :: 8 word)) = Finite 100000000"
    by (simp add: Math_pow10_def example_env_def fl_numeral)
  have p0: "Math_pow10 (exponentiate10 example_env) (unat (0 :: 8 word)) = Finite 1"
    by (simp add: Math_pow10_def)
  have p34: "Math_pow10 (exponentiate10 rough_env) (unat (34 :: 8 word)) =
      Finite 10000000000000000608673814477275136"
    by (simp add: Math_pow10_def rough_env_def example_env_def)
  have q34: "Math_pow10 (exponentiate10 example_env) (unat (34 :: 8 word)) = fl (10 ^ 34)"
    by (simp add: Math_pow10_def example_env_def)
  have r: "price (health_main rough_env example_parsed 34 large_round) =
      Finite 50000000000000000000"
    by (simp only: price_main_eq p34 l large_price_rough)
  have g: "price (health_main example_env example_parsed 34 large_round) =
      Finite 50000000000000008192"
    by (simp only: price_main_eq q34 l large_price_nearest)
  have m: "price (health_main example_env example_parsed 0 negative_round) = Finite (- 5)"
    using fl_int_exact [of "- 5"]
    by (simp add: price_main_eq n Math_pow10_def Number_of_bigint_def)
  have x8: "exact_price 8 example_round = 2000" by (simp add: exact_price_def s)
  have x34: "exact_price 34 large_round = 50000000000000000000" by (simp add: exact_price_def l)
  show ?thesis
    using price_accuracy [of example_env example_parsed 8 example_round]
      price_accuracy [of rough_env example_parsed 34 large_round] e m
    by (simp add: s n p8 [simplified] p0 [simplified] p34 [simplified] r g x8 x34 fl_numeral
        fl_1 rough_double
        health_same [of example_env example_parsed 0 negative_round, symmetric])
qed

text \<open>
  The division is not exact: the answer \<open>2 ^ 53 + 1\<close> with no
  decimals gives the price \<open>2 ^ 53\<close> in both source files.
\<close>

theorem price_accuracy_counterexample:
  "price (health_main example_env example_parsed 0 odd_round) = Finite 9007199254740992 \<and>
   price (health_part example_env example_parsed 0 odd_round) = Finite 9007199254740992 \<and>
   of_int (sint (answer odd_round)) / 10 ^ unat (0 :: 8 word) = (9007199254740993 :: rat) \<and>
   Finite 9007199254740992 \<noteq> Finite (of_int (sint (answer odd_round)) / 10 ^ unat (0 :: 8 word))"
  by (simp add: health_main_def health_part_def Let_def odd_round_def Number_of_bigint_def
      Math_pow10_def fl_odd fl_1 fl_numeral)

text \<open>
  C10: a \<open>latestRoundData\<close> response that decodes well can make the evaluation fail
  while the report is printed.  When \<open>updatedAt\<close> exceeds \<open>8640000000000\<close> seconds,
  \<open>Number(updatedAt) * 1000\<close> is beyond the largest time value, the date is invalid, the
  staleness is NaN and the status \<open>FAIL\<close>; both source files log the feed, price and
  round lines, then \<open>toISOString\<close> throws a RangeError and no summary is returned.
\<close>

theorem invalid_date_aborts:
  assumes "configSchema_main raw = Inr config"
    and "getNetwork env ''evm'' (chainSelectorName config) (isTestnet config) = Some selector"
    and "callContract env (feed_request env config selector ''description'') = Inr d1"
    and "callContract env (feed_request env config selector ''decimals'') = Inr d2"
    and "callContract env (feed_request env config selector ''latestRoundData'') = Inr d3"
    and "decodeDescription env d1 = Inr description"
    and "decodeDecimals env d2 = Inr decimals"
    and "decodeLatestRoundData env d3 = Inr rd"
    and "8640000000000 < uint (updatedAt rd)"
  shows "snd (onCronTrigger_main env raw) = Inl RangeError \<and>
         snd (onCronTrigger_part env raw) = Inl RangeError \<and>
         status (health_main env config decimals rd) = ''FAIL'' \<and>
         status (health_part env config decimals rd) = ''FAIL'' \<and>
         logs (fst (onCronTrigger_main env raw)) =
           [rule_line, ''Feed Health Monitor: '' @ feedName config, rule_line,
            ''[Step 1] Preparing EVM calls...'', ''[Step 2] Executing parallel EVM calls...'',
            ''  Feed: '' @ description, ''  Decimals: '' @ digits (unat decimals),
            rule_line, ''  Feed:      '' @ description,
            ''  Price:     $'' @
              toFixed (numberToString env) 2 (price (health_main env config decimals rd)),
            ''  Round ID:  '' @ bigint_toString (uint (roundId rd)),
            ''ERROR: '' @ rangeErrorMessage env] \<and>
         logs (fst (onCronTrigger_part env raw)) =
           [''Feed Health Monitor: '' @ feedName config, ''Feed:      '' @ description,
            ''Price:     $'' @
              toFixed (numberToString env) 2 (price (health_part env config decimals rd)),
            ''Round ID:  '' @ bigint_toString (uint (roundId rd))]"
proof -
  let ?r1 = "feed_request env config selector ''description''"
  let ?r2 = "feed_request env config selector ''decimals''"
  let ?r3 = "feed_request env config selector ''latestRoundData''"
  note h = health_invalid_date [OF assms(9), of env config decimals]
  have cp: "configSchema_part raw = Inr config" using assms(1) by (simp add: configSchema_same)
  have rm: "snd (read_main env ?r1 ?r2 ?r3) = Inr (description, decimals, rd)"
    by (simp add: snd_read_main assms)
  have fm: "fst (read_main env ?r1 ?r2 ?r3) =
      [Log ''[Step 2] Executing parallel EVM calls...'', Log (''  Feed: '' @ description),
       Log (''  Decimals: '' @ digits (unat decimals))]"
    by (simp add: fst_read_main assms)
  have rp: "snd (read_part env ?r1 ?r2 ?r3) = Inr (description, decimals, rd)"
    by (simp add: snd_read_part assms)
  have tm: "snd (try_main env raw) = Inl RangeError"
    by (simp add: try_main_eq assms(1,2) rm h Let_def)
  have lm: "logs (fst (try_main env raw)) =
           [rule_line, ''Feed Health Monitor: '' @ feedName config, rule_line,
            ''[Step 1] Preparing EVM calls...'', ''[Step 2] Executing parallel EVM calls...'',
            ''  Feed: '' @ description, ''  Decimals: '' @ digits (unat decimals),
            rule_line, ''  Feed:      '' @ description,
            ''  Price:     $'' @
              toFixed (numberToString env) 2 (price (health_main env config decimals rd)),
            ''  Round ID:  '' @ bigint_toString (uint (roundId rd))]"
    by (simp add: try_main_eq assms(1,2) rm fm fst_report_main h Let_def)
  have am: "assess_main env raw =
      (fst (try_main env raw) @ [Log (''ERROR: '' @ rangeErrorMessage env)], Inl RangeError)"
    using assess_main_Inl [of env raw "fst (try_main env raw)" RangeError] tm
    by (simp add: prod_eq_iff)
  have ap: "snd (assess_part env raw) = Inl RangeError"
    by (simp add: assess_part_eq cp assms(2) rp h Let_def)
  have lp: "logs (fst (assess_part env raw)) =
           [''Feed Health Monitor: '' @ feedName config, ''Feed:      '' @ description,
            ''Price:     $'' @
              toFixed (numberToString env) 2 (price (health_part env config decimals rd)),
            ''Round ID:  '' @ bigint_toString (uint (roundId rd))]"
    by (simp add: assess_part_eq cp assms(2) rp fst_report_part h Let_def)
  show ?thesis
    by (simp add: snd_onCronTrigger_main snd_onCronTrigger_part fst_onCronTrigger_main
        fst_onCronTrigger_part am ap lp lm logs_append h)
qed

theorem invalid_date_aborts_witness:
  "configSchema_main example_config = Inr example_parsed \<and>
   getNetwork late_env ''evm'' (chainSelectorName example_parsed) (isTestnet example_parsed) =
     Some 8453 \<and>
   callContract late_env (feed_request late_env example_parsed 8453 ''latestRoundData'') = Inr [] \<and>
   decodeLatestRoundData late_env [] = Inr late_round \<and>
   8640000000000 < uint (updatedAt late_round) \<and>
   snd (onCronTrigger_main late_env example_config) = Inl RangeError \<and>
   snd (onCronTrigger_part late_env example_config) = Inl RangeError \<and>
   status (health_main late_env example_parsed 8 late_round) = ''FAIL'' \<and>
   status (health_part late_env example_parsed 8 late_round) = ''FAIL''"
proof -
  have n: "getNetwork late_env ''evm'' (chainSelectorName example_parsed)
      (isTestnet example_parsed) = Some 8453"
    by (simp add: late_env_def example_env_def example_parsed_def)
  have c: "callContract late_env (feed_request late_env example_parsed 8453 f) = Inr []" for f
    by (simp add: late_env_def example_env_def)
  have d1: "decodeDescription late_env [] = Inr ''ETH / USD''"
    by (simp add: late_env_def example_env_def)
  have d2: "decodeDecimals late_env [] = Inr 8"
    by (simp add: late_env_def example_env_def)
  have d3: "decodeLatestRoundData late_env [] = Inr late_round"
    by (simp add: late_env_def example_env_def)
  have u: "8640000000000 < uint (updatedAt late_round)"
    by (simp add: late_round_def)
  show ?thesis
    using invalid_date_aborts [OF example_parsed_main n c c c d1 d2 d3 u] n c d3 u
    by (simp add: example_parsed_main)
qed

section \<open>The summary and the two source files\<close>

text \<open>
  C3 (as amended): a successful evaluation of part_000 returns exactly
  \<open><feedName>: <status> ($<price>, <stalenessMinutes>m)\<close>, and a successful evaluation of
  main.ts returns \<open><feedName>: <status> (<price>, <stalenessMinutes>m stale)\<close>, where
  \<open><price>\<close> is \<open>price.toFixed(2)\<close> and \<open><stalenessMinutes>\<close> is
  \<open>stalenessMinutes.toFixed(1)\<close>; below \<open>10 ^ 21\<close> these have two digits and one digit
  after the point.
\<close>

theorem summary_shape:
  "(snd (assess_part env raw) = Inr (h, s) \<longrightarrow>
      snd (onCronTrigger_part env raw) = Inr s \<and>
      (\<exists>config. configSchema_part raw = Inr config \<and>
         s = feedName config @ '': '' @ status h @ '' ($'' @
             toFixed (numberToString env) 2 (price h) @ '', '' @
             toFixed (numberToString env) 1 (stalenessMinutes h) @ ''m)'')) \<and>
   (snd (assess_main env raw) = Inr (h, s) \<longrightarrow>
      snd (onCronTrigger_main env raw) = Inr s \<and>
      (\<exists>config. configSchema_main raw = Inr config \<and>
         s = feedName config @ '': '' @ status h @ '' ('' @
             toFixed (numberToString env) 2 (price h) @ '', '' @
             toFixed (numberToString env) 1 (stalenessMinutes h) @ ''m stale)'')) \<and>
   (\<bar>r\<bar> < 10 ^ 21 \<longrightarrow>
      (\<exists>a b. toFixed (numberToString env) 2 (Finite r) = a @ ''.'' @ b \<and> length b = 2 \<and>
         set b \<subseteq> set ''0123456789'') \<and>
      (\<exists>a b. toFixed (numberToString env) 1 (Finite r) = a @ ''.'' @ b \<and> length b = 1 \<and>
         set b \<subseteq> set ''0123456789''))"
proof (intro conjI impI)
  assume a: "snd (assess_part env raw) = Inr (h, s)"
  then show "snd (onCronTrigger_part env raw) = Inr s" by (simp add: snd_onCronTrigger_part)
  from a obtain config where "configSchema_part raw = Inr config" "s = summary_part env config h"
    unfolding assess_part_Inr_iff by blast
  then show "\<exists>config. configSchema_part raw = Inr config \<and>
         s = feedName config @ '': '' @ status h @ '' ($'' @
             toFixed (numberToString env) 2 (price h) @ '', '' @
             toFixed (numberToString env) 1 (stalenessMinutes h) @ ''m)''"
    by (auto simp: summary_part_def)
next
  assume a: "snd (assess_main env raw) = Inr (h, s)"
  then show "snd (onCronTrigger_main env raw) = Inr s" by (simp add: snd_onCronTrigger_main)
  from a obtain config where "configSchema_main raw = Inr config" "s = summary_main env config h"
    unfolding assess_main_Inr_iff by blast
  then show "\<exists>config. configSchema_main raw = Inr config \<and>
         s = feedName config @ '': '' @ status h @ '' ('' @
             toFixed (numberToString env) 2 (price h) @ '', '' @
             toFixed (numberToString env) 1 (stalenessMinutes h) @ ''m stale)''"
    by (auto simp: summary_main_def)
next
  assume "\<bar>r\<bar> < 10 ^ 21"
  then show "\<exists>a b. toFixed (numberToString env) 2 (Finite r) = a @ ''.'' @ b \<and> length b = 2 \<and>
         set b \<subseteq> set ''0123456789''"
    by (intro toFixed_places) simp_all
next
  assume "\<bar>r\<bar> < 10 ^ 21"
  then show "\<exists>a b. toFixed (numberToString env) 1 (Finite r) = a @ ''.'' @ b \<and> length b = 1 \<and>
         set b \<subseteq> set ''0123456789''"
    by (intro toFixed_places) simp_all
qed

theorem summary_shape_witness:
  "snd (assess_part example_env example_config) =
     Inr (example_health, ''ETH/USD: OK ($2000.00, 5.0m)'') \<and>
   snd (onCronTrigger_part example_env example_config) = Inr ''ETH/USD: OK ($2000.00, 5.0m)'' \<and>
   snd (assess_main example_env example_config) =
     Inr (example_health, ''ETH/USD: OK (2000.00, 5.0m stale)'') \<and>
   snd (onCronTrigger_main example_env example_config) =
     Inr ''ETH/USD: OK (2000.00, 5.0m stale)'' \<and>
   \<bar>2000 :: rat\<bar> < 10 ^ 21 \<and>
   toFixed (numberToString example_env) 2 (Finite 2000) = ''2000'' @ ''.'' @ ''00''"
proof -
  have t: "toFixed (numberToString example_env) 2 (Finite 2000) = ''2000'' @ ''.'' @ ''00''"
    by (simp add: toFixed_def Let_def digits_numeral floor_numeral_div)
  have r: "\<bar>2000 :: rat\<bar> < 10 ^ 21" by simp
  show ?thesis
    using summary_shape [of example_env example_config example_health
        "''ETH/USD: OK ($2000.00, 5.0m)''" 2000]
      summary_shape [of example_env example_config example_health
        "''ETH/USD: OK (2000.00, 5.0m stale)''" 2000]
      example_assess_part example_assess_main t r
    by simp
qed

theorem summary_shape_counterexample:
  "snd (assess_main example_env example_config) =
     Inr (example_health, ''ETH/USD: OK (2000.00, 5.0m stale)'') \<and>
   snd (onCronTrigger_main example_env example_config) =
     Inr ''ETH/USD: OK (2000.00, 5.0m stale)'' \<and>
   ''ETH/USD: OK (2000.00, 5.0m stale)'' \<noteq>
     feedName example_parsed @ '': '' @ status example_health @ '' ($'' @
     toFixed (numberToString example_env) 2 (price example_health) @ '', '' @
     toFixed (numberToString example_env) 1 (stalenessMinutes example_health) @ ''m)''"
proof -
  have "feedName example_parsed @ '': '' @ status example_health @ '' ($'' @
     toFixed (numberToString example_env) 2 (price example_health) @ '', '' @
     toFixed (numberToString example_env) 1 (stalenessMinutes example_health) @ ''m)'' =
     ''ETH/USD: OK ($2000.00, 5.0m)''"
    using example_summary_part by (simp add: summary_part_def)
  then show ?thesis
    using example_assess_main by (simp add: snd_onCronTrigger_main)
qed

text \<open>
  C8 (as amended): on the same configuration and runtime, the two source files succeed
  together, send the same requests, and compute the same price, date, staleness and
  status; each returns its own summary of these values, and the two summaries differ.
\<close>

theorem variants_agree:
  "((\<exists>h s. snd (assess_main env raw) = Inr (h, s)) \<longleftrightarrow>
    (\<exists>h s. snd (assess_part env raw) = Inr (h, s))) \<and>
   (\<forall>h s h' s'.
      snd (assess_main env raw) = Inr (h, s) \<and> snd (assess_part env raw) = Inr (h', s') \<longrightarrow>
      h = h' \<and>
      (\<exists>config. configSchema_main raw = Inr config \<and> configSchema_part raw = Inr config \<and>
         s = summary_main env config h \<and> s' = summary_part env config h \<and> s \<noteq> s')) \<and>
   calls (fst (onCronTrigger_main env raw)) = calls (fst (onCronTrigger_part env raw))"
proof (intro conjI allI impI)
  show "(\<exists>h s. snd (assess_main env raw) = Inr (h, s)) \<longleftrightarrow>
        (\<exists>h s. snd (assess_part env raw) = Inr (h, s))"
    unfolding assess_main_Inr_iff assess_part_Inr_iff
    by (simp add: health_same read_same configSchema_same) blast
next
  fix h s h' s'
  assume a: "snd (assess_main env raw) = Inr (h, s) \<and> snd (assess_part env raw) = Inr (h', s')"
  from a obtain config selector description decimals rd where
    m: "configSchema_main raw = Inr config"
       "getNetwork env ''evm'' (chainSelectorName config) (isTestnet config) = Some selector"
       "snd (read_main env (feed_request env config selector ''description'')
               (feed_request env config selector ''decimals'')
               (feed_request env config selector ''latestRoundData'')) =
          Inr (description, decimals, rd)"
       "h = health_main env config decimals rd" "s = summary_main env config h"
    unfolding assess_main_Inr_iff by blast
  from a obtain config' selector' description' decimals' rd' where
    p: "configSchema_part raw = Inr config'"
       "getNetwork env ''evm'' (chainSelectorName config') (isTestnet config') = Some selector'"
       "snd (read_part env (feed_request env config' selector' ''description'')
               (feed_request env config' selector' ''decimals'')
               (feed_request env config' selector' ''latestRoundData'')) =
          Inr (description', decimals', rd')"
       "h' = health_part env config' decimals' rd'" "s' = summary_part env config' h'"
    unfolding assess_part_Inr_iff by blast
  have c: "config' = config" using m(1) p(1) by (simp add: configSchema_same)
  then have sel: "selector' = selector" using m(2) p(2) by simp
  have "decimals' = decimals \<and> rd' = rd" using m(3) p(3) by (simp add: c sel read_same)
  then show "h = h'" using m(4) p(4) by (simp add: c health_same)
  then have "s' = summary_part env config h" using p(5) c by simp
  moreover have "summary_main env config h \<noteq> summary_part env config h"
    by (simp add: summary_main_def summary_part_def)
  ultimately show "\<exists>config. configSchema_main raw = Inr config \<and> configSchema_part raw = Inr config \<and>
         s = summary_main env config h \<and> s' = summary_part env config h \<and> s \<noteq> s'"
    using m(1,5) p(1) c by auto
next
  show "calls (fst (onCronTrigger_main env raw)) = calls (fst (onCronTrigger_part env raw))"
  proof (cases "configSchema_main raw")
    case (Inl e)
    have "\<exists>e'. configSchema_part raw = Inl e'"
    proof (cases "configSchema_part raw")
      case (Inr c)
      then have "configSchema_main raw = Inr c" by (simp add: configSchema_same)
      then show ?thesis using Inl by simp
    qed simp
    then obtain e' where "configSchema_part raw = Inl e'" by blast
    then show ?thesis
      using Inl
      by (simp add: calls_onCronTrigger_main calls_try_main calls_onCronTrigger_part
          calls_assess_part)
  next
    case (Inr c)
    then have "configSchema_part raw = Inr c" by (simp add: configSchema_same)
    then show ?thesis
      using Inr
      by (simp add: calls_onCronTrigger_main calls_try_main calls_onCronTrigger_part
          calls_assess_part)
  qed
qed

theorem variants_agree_witness:
  "snd (assess_main example_env example_config) =
     Inr (example_health, ''ETH/USD: OK (2000.00, 5.0m stale)'') \<and>
   snd (assess_part example_env example_config) =
     Inr (example_health, ''ETH/USD: OK ($2000.00, 5.0m)'') \<and>
   configSchema_main example_config = Inr example_parsed \<and>
   configSchema_part example_config = Inr example_parsed \<and>
   summary_main example_env example_parsed example_health =
     ''ETH/USD: OK (2000.00, 5.0m stale)'' \<and>
   summary_part example_env example_parsed example_health = ''ETH/USD: OK ($2000.00, 5.0m)''"
  using variants_agree [of example_env example_config] example_assess_main example_assess_part
    example_parsed_main example_parsed_part example_summary_main example_summary_part
  by simp

theorem variants_agree_counterexample:
  "snd (onCronTrigger_main example_env example_config) =
     Inr ''ETH/USD: OK (2000.00, 5.0m stale)'' \<and>
   snd (onCronTrigger_part example_env example_config) = Inr ''ETH/USD: OK ($2000.00, 5.0m)'' \<and>
   snd (onCronTrigger_main example_env example_config) \<noteq>
     snd (onCronTrigger_part example_env example_config)"
  using example_assess_main example_assess_part
  by (simp add: snd_onCronTrigger_main snd_onCronTrigger_part)

end
